theory Spec2Isabelle
  imports Complex_Main
begin

section \<open>JavaScript strings and values\<close>

text \<open>
  A JavaScript string is a sequence of UTF-16 code units. The model covers the strings
  whose code units are below 256 and writes them as \<^typ>\<open>string\<close>: a \<^typ>\<open>char\<close> is
  the code unit of that number. The character classes below are the ones of the
  regular expressions of \<^verbatim>\<open>src/extension.ts\<close>, cut to that range.
\<close>

definition is_word :: "char \<Rightarrow> bool" where
  \<comment> \<open>\<^verbatim>\<open>\w\<close>, that is \<^verbatim>\<open>[A-Za-z0-9_]\<close>\<close>
  "is_word c = (let n = (of_char c :: nat) in
     (48 \<le> n \<and> n \<le> 57) \<or> (65 \<le> n \<and> n \<le> 90) \<or> n = 95 \<or> (97 \<le> n \<and> n \<le> 122))"

definition is_alnum :: "char \<Rightarrow> bool" where
  \<comment> \<open>\<^verbatim>\<open>[a-zA-Z0-9]\<close>\<close>
  "is_alnum c = (let n = (of_char c :: nat) in
     (48 \<le> n \<and> n \<le> 57) \<or> (65 \<le> n \<and> n \<le> 90) \<or> (97 \<le> n \<and> n \<le> 122))"

definition is_ident_start :: "char \<Rightarrow> bool" where
  \<comment> \<open>\<^verbatim>\<open>[a-zA-Z_]\<close>\<close>
  "is_ident_start c = (let n = (of_char c :: nat) in
     (65 \<le> n \<and> n \<le> 90) \<or> n = 95 \<or> (97 \<le> n \<and> n \<le> 122))"

definition is_space :: "char \<Rightarrow> bool" where
  \<comment> \<open>\<^verbatim>\<open>\s\<close>, also what \<^verbatim>\<open>trim\<close> strips: tab, line feed, vertical tab, form feed,
      carriage return, space, no-break space\<close>
  "is_space c = (let n = (of_char c :: nat) in (9 \<le> n \<and> n \<le> 13) \<or> n = 32 \<or> n = 160)"

definition is_line_terminator :: "char \<Rightarrow> bool" where
  \<comment> \<open>what \<^verbatim>\<open>.\<close> refuses: line feed and carriage return\<close>
  "is_line_terminator c = (let n = (of_char c :: nat) in n = 10 \<or> n = 13)"

definition upper_letters :: string where
  "upper_letters = ''ABCDEFGHIJKLMNOPQRSTUVWXYZ'' @
     [CHR 0xC0, CHR 0xC1, CHR 0xC2, CHR 0xC3, CHR 0xC4, CHR 0xC5, CHR 0xC6, CHR 0xC7,
      CHR 0xC8, CHR 0xC9, CHR 0xCA, CHR 0xCB, CHR 0xCC, CHR 0xCD, CHR 0xCE, CHR 0xCF,
      CHR 0xD0, CHR 0xD1, CHR 0xD2, CHR 0xD3, CHR 0xD4, CHR 0xD5, CHR 0xD6,
      CHR 0xD8, CHR 0xD9, CHR 0xDA, CHR 0xDB, CHR 0xDC, CHR 0xDD, CHR 0xDE]"

definition lower_letters :: string where
  "lower_letters = ''abcdefghijklmnopqrstuvwxyz'' @
     [CHR 0xE0, CHR 0xE1, CHR 0xE2, CHR 0xE3, CHR 0xE4, CHR 0xE5, CHR 0xE6, CHR 0xE7,
      CHR 0xE8, CHR 0xE9, CHR 0xEA, CHR 0xEB, CHR 0xEC, CHR 0xED, CHR 0xEE, CHR 0xEF,
      CHR 0xF0, CHR 0xF1, CHR 0xF2, CHR 0xF3, CHR 0xF4, CHR 0xF5, CHR 0xF6,
      CHR 0xF8, CHR 0xF9, CHR 0xFA, CHR 0xFB, CHR 0xFC, CHR 0xFD, CHR 0xFE]"

definition lower_char :: "char \<Rightarrow> char" where
  "lower_char c = (case map_of (zip upper_letters lower_letters) c of Some d \<Rightarrow> d | None \<Rightarrow> c)"

definition toLowerCase :: "string \<Rightarrow> string" where
  "toLowerCase s = map lower_char s"

definition trim :: "string \<Rightarrow> string" where
  "trim s = rev (dropWhile is_space (rev (dropWhile is_space s)))"

definition starts_with :: "string \<Rightarrow> string \<Rightarrow> bool" where
  \<comment> \<open>the text begins with the marker\<close>
  "starts_with m s = (take (length m) s = m)"

section \<open>CodeBlockExtractor\<close>

text \<open>
  \<^verbatim>\<open>_extractCodeBlocks\<close> runs the regular expression
  \<^verbatim>\<open>/```(\w+)?\s*\n([\s\S]*?)\n```/g\<close> over the response with \<^verbatim>\<open>exec\<close> until it fails.
  The model follows the backtracking matcher piece by piece, on the text that starts at the
  position tried (nothing in the expression looks behind that position):
  \<^item> \<open>find_close\<close> is \<^verbatim>\<open>([\s\S]*?)\n```\<close>: the lazy body grows one character at a
    time until the closing marker follows;
  \<^item> \<open>after_tag\<close> is \<^verbatim>\<open>\s*\n\<close> followed by \<open>find_close\<close>: the greedy \<^verbatim>\<open>\s*\<close> first
    takes one more white-space character, and gives it back only when the rest fails;
  \<^item> \<open>match_here\<close> is the whole expression. \<^verbatim>\<open>(\w+)?\<close> takes the longest run of word
    characters: after a shorter run the next character is a word character, which neither
    \<^verbatim>\<open>\s*\<close> nor \<^verbatim>\<open>\n\<close> accepts, so no shorter run can match;
  \<^item> \<open>matchAll\<close> is the \<^verbatim>\<open>while\<close> loop: a failed position moves one character on, a
    match moves \<^verbatim>\<open>lastIndex\<close> behind the closing marker.
\<close>

definition line_feed :: char where "line_feed = CHR 0x0A"
definition fence :: string where "fence = [CHR 0x60, CHR 0x60, CHR 0x60]"
definition closing :: string where "closing = line_feed # fence"

fun find_close :: "string \<Rightarrow> (string \<times> string) option" where
  "find_close [] = None"
| "find_close (c # cs) =
     (if starts_with closing (c # cs) then Some ([], drop (length closing) (c # cs))
      else case find_close cs of
             None \<Rightarrow> None
           | Some (body, rest) \<Rightarrow> Some (c # body, rest))"

fun after_tag :: "string \<Rightarrow> (string \<times> string \<times> string) option" where
  "after_tag [] = None"
| "after_tag (c # cs) =
     (if is_space c then
        (case after_tag cs of
           Some (ws, body, rest) \<Rightarrow> Some (c # ws, body, rest)
         | None \<Rightarrow>
            if c = line_feed then
              (case find_close cs of
                 Some (body, rest) \<Rightarrow> Some ([], body, rest)
               | None \<Rightarrow> None)
            else None)
      else None)"

text \<open>
  One match: the tag (\<^verbatim>\<open>match[1]\<close>, empty when the group did not take part), the white
  space taken by \<^verbatim>\<open>\s*\<close>, the body (\<^verbatim>\<open>match[2]\<close>) and the text behind the match.
\<close>

record fenced =
  open_tag :: string
  open_space :: string
  raw_body :: string
  remainder :: string

definition match_here :: "string \<Rightarrow> fenced option" where
  "match_here s =
     (if starts_with fence s then
        (let r = drop (length fence) s in
         case after_tag (dropWhile is_word r) of
           None \<Rightarrow> None
         | Some (ws, body, rest) \<Rightarrow>
             Some \<lparr>open_tag = takeWhile is_word r, open_space = ws, raw_body = body,
                   remainder = rest\<rparr>)
      else None)"

function matchAll :: "string \<Rightarrow> fenced list" where
  "matchAll [] = []"
| "matchAll (c # cs) =
     (case match_here (c # cs) of
        Some m \<Rightarrow> m # matchAll (remainder m)
      | None \<Rightarrow> matchAll cs)"
  by pat_completeness auto
termination
proof -
  have fc: "find_close s = Some (b, r) \<Longrightarrow> length r < length s" for s b r
    by (induction s arbitrary: b) (auto simp: closing_def fence_def split: if_splits option.splits)
  have at: "after_tag s = Some (w, b, r) \<Longrightarrow> length r < length s" for s w b r
    by (induction s arbitrary: w) (auto split: if_splits option.splits dest: fc)
  have mh: "match_here s = Some m \<Longrightarrow> length (remainder m) < length s" for s m
  proof -
    assume h: "match_here s = Some m"
    then obtain w b where a: "after_tag (dropWhile is_word (drop (length fence) s)) = Some (w, b, remainder m)"
      by (auto simp: match_here_def Let_def split: if_splits option.splits)
    have "length (dropWhile is_word (drop (length fence) s)) \<le> length (drop (length fence) s)"
      by (rule length_dropWhile_le)
    with at[OF a] show ?thesis by simp
  qed
  show ?thesis
    by (relation "measure length") (auto dest: mh)
qed

record code_block =
  language :: string
  code :: string

definition extractCodeBlocks :: "string \<Rightarrow> code_block list" where
  "extractCodeBlocks response =
     map (\<lambda>m. \<lparr>language = open_tag m, code = trim (raw_body m)\<rparr>) (matchAll response)"







section \<open>FileNamer: the extension of a language tag\<close>

text \<open>
  \<^verbatim>\<open>_getFileExtension\<close> reads \<^verbatim>\<open>extensionMap[language.toLowerCase()] || 'txt'\<close>, and
  \<^verbatim>\<open>extensionMap\<close> is an object literal: a property read that finds no own property goes
  on to \<^verbatim>\<open>Object.prototype\<close>. What the read returns is therefore a string of the table or
  a member of \<^verbatim>\<open>Object.prototype\<close>; all of those members are functions or objects, so all
  are truthy.
\<close>

datatype jsprop = Str string | Inherited string

definition extensionMap :: "(string \<times> string) list" where
  "extensionMap =
    [(''html'', ''html''), (''javascript'', ''js''), (''typescript'', ''ts''), (''css'', ''css''),
     (''python'', ''py''), (''java'', ''java''), (''c'', ''c''), (''cpp'', ''cpp''),
     (''php'', ''php''), (''ruby'', ''rb''), (''go'', ''go''), (''rust'', ''rs''),
     (''swift'', ''swift''), (''kotlin'', ''kt''), (''sql'', ''sql''), (''json'', ''json''),
     (''xml'', ''xml''), (''markdown'', ''md''), (''yaml'', ''yml''), (''shell'', ''sh'')]"

definition object_prototype_names :: "string list" where
  "object_prototype_names =
    [''constructor'', ''__defineGetter__'', ''__defineSetter__'', ''hasOwnProperty'',
     ''__lookupGetter__'', ''__lookupSetter__'', ''isPrototypeOf'', ''propertyIsEnumerable'',
     ''toString'', ''valueOf'', ''__proto__'', ''toLocaleString'']"

definition object_get :: "(string \<times> string) list \<Rightarrow> string \<Rightarrow> jsprop option" where
  \<comment> \<open>\<^verbatim>\<open>obj[key]\<close> on an object literal with string values; \<open>None\<close> is \<^verbatim>\<open>undefined\<close>\<close>
  "object_get obj key =
     (case map_of obj key of
        Some v \<Rightarrow> Some (Str v)
      | None \<Rightarrow> if key \<in> set object_prototype_names then Some (Inherited key) else None)"

fun truthy_prop :: "jsprop \<Rightarrow> bool" where
  "truthy_prop (Str s) = (s \<noteq> [])"
| "truthy_prop (Inherited n) = True"

definition getFileExtension :: "string \<Rightarrow> jsprop" where
  "getFileExtension lang =
     (case object_get extensionMap (toLowerCase lang) of
        Some v \<Rightarrow> if truthy_prop v then v else Str ''txt''
      | None \<Rightarrow> Str ''txt'')"

definition known_language :: "string \<Rightarrow> bool" where
  "known_language lang = (toLowerCase lang \<in> set (map fst extensionMap))"

section \<open>FileNamer: the name of a file\<close>

text \<open>
  \<^verbatim>\<open>Date.now()\<close> is an integer number of milliseconds, and a template literal writes
  an integer of that size in plain decimal notation.
\<close>

definition digit_char :: "nat \<Rightarrow> char" where
  "digit_char d = ''0123456789'' ! (d mod 10)"

fun decimal :: "nat \<Rightarrow> string" where
  "decimal n = (if n < 10 then [digit_char n] else decimal (n div 10) @ [digit_char (n mod 10)])"

declare decimal.simps [simp del]

definition number_toString :: "int \<Rightarrow> string" where
  "number_toString i = (if i < 0 then CHR ''-'' # decimal (nat (- i)) else decimal (nat i))"

text \<open>
  What a template literal writes for the value of \<^verbatim>\<open>extension\<close>: the string itself, and for
  a member of \<^verbatim>\<open>Object.prototype\<close> the text of that function (of the prototype object for
  \<^verbatim>\<open>__proto__\<close>).
\<close>

fun render_prop :: "jsprop \<Rightarrow> string" where
  "render_prop (Str s) = s"
| "render_prop (Inherited n) =
     (if n = ''__proto__'' then ''[object Object]''
      else ''function '' @ (if n = ''constructor'' then ''Object'' else n) @ ''() { [native code] }'')"

text \<open>
  \<^verbatim>\<open>content.match(/<title>(.*?)<\/title>/i)\<close>: the leftmost position where the opening tag
  matches and a closing tag follows on the same line; the group is the shortest text up to
  a closing tag. Letter case is ignored, so the text is compared in lower case.
\<close>

definition starts_with_ci :: "string \<Rightarrow> string \<Rightarrow> bool" where
  "starts_with_ci m s = (toLowerCase (take (length m) s) = m)"

fun lazy_title :: "string \<Rightarrow> string option" where
  "lazy_title [] = None"
| "lazy_title (c # cs) =
     (if starts_with_ci ''</title>'' (c # cs) then Some []
      else if is_line_terminator c then None
      else case lazy_title cs of None \<Rightarrow> None | Some t \<Rightarrow> Some (c # t))"

fun title_match :: "string \<Rightarrow> string option" where
  "title_match [] = None"
| "title_match (c # cs) =
     (if starts_with_ci ''<title>'' (c # cs) then
        (case lazy_title (drop (length ''<title>'') (c # cs)) of
           Some t \<Rightarrow> Some t
         | None \<Rightarrow> title_match cs)
      else title_match cs)"

text \<open>
  \<^verbatim>\<open>content.match(/def\s+([a-zA-Z_][a-zA-Z0-9_]*)\s*\(/)\<close>. Each greedy piece takes its
  longest run: a shorter run leaves a character of the same class in front of the next
  piece, which refuses it.
\<close>

definition def_here :: "string \<Rightarrow> string option" where
  "def_here s =
     (if starts_with ''def'' s then
        (let r = drop (length ''def'') s;
             r1 = dropWhile is_space r
         in if takeWhile is_space r \<noteq> [] then
              (case r1 of
                 [] \<Rightarrow> None
               | c # cs \<Rightarrow>
                   if is_ident_start c \<and>
                      starts_with ''('' (dropWhile is_space (dropWhile is_word cs))
                   then Some (c # takeWhile is_word cs)
                   else None)
            else None)
      else None)"

fun func_match :: "string \<Rightarrow> string option" where
  "func_match [] = None"
| "func_match (c # cs) =
     (case def_here (c # cs) of Some f \<Rightarrow> Some f | None \<Rightarrow> func_match cs)"

definition slug :: "string \<Rightarrow> string" where
  \<comment> \<open>\<^verbatim>\<open>replace(/[^a-zA-Z0-9]/g, '_').toLowerCase()\<close>\<close>
  "slug t = toLowerCase (map (\<lambda>c. if is_alnum c then c else CHR ''_'') t)"

definition default_name :: "int \<Rightarrow> jsprop \<Rightarrow> string" where
  "default_name now extension = ''generated_'' @ number_toString now @ ''.'' @ render_prop extension"

text \<open>
  The name \<^verbatim>\<open>_createFile\<close> gives the file, from the clock reading, the content and the
  extension. A match with an empty group is falsy and keeps the default name.
\<close>

definition fileNameFor :: "int \<Rightarrow> string \<Rightarrow> jsprop \<Rightarrow> string" where
  "fileNameFor now content extension =
     (let fileName = default_name now extension in
      if extension = Str ''html'' then
        (case title_match content of
           Some t \<Rightarrow> if t \<noteq> [] then slug t @ ''.'' @ render_prop extension else fileName
         | None \<Rightarrow> fileName)
      else if extension = Str ''py'' then
        (case func_match content of
           Some f \<Rightarrow> if f \<noteq> [] then f @ ''.py'' else fileName
         | None \<Rightarrow> fileName)
      else fileName)"

definition falls_back :: "string \<Rightarrow> jsprop \<Rightarrow> bool" where
  \<comment> \<open>neither heuristic replaces the default name\<close>
  "falls_back content extension =
     (\<not> (extension = Str ''html'' \<and>
           (case title_match content of Some t \<Rightarrow> t \<noteq> [] | None \<Rightarrow> False)) \<and>
      \<not> (extension = Str ''py'' \<and>
           (case func_match content of Some f \<Rightarrow> f \<noteq> [] | None \<Rightarrow> False)))"

text \<open>
  The slug as the specification words it: lower case, and every run of characters that
  are not alphanumeric collapsed to a single separator. The flag says that the character
  before was part of such a run.
\<close>

fun collapse_runs :: "bool \<Rightarrow> string \<Rightarrow> string" where
  "collapse_runs prev [] = []"
| "collapse_runs prev (c # cs) =
     (if is_alnum c then c # collapse_runs False cs
      else if prev then collapse_runs True cs
      else CHR ''_'' # collapse_runs True cs)"

definition spec_slug :: "string \<Rightarrow> string" where
  "spec_slug t = toLowerCase (collapse_runs False t)"

section \<open>Messages and effects\<close>

text \<open>
  An entry of \<^verbatim>\<open>_conversationHistory\<close> is \<^verbatim>\<open>{ role, content }\<close>.
\<close>

datatype role = User | Assistant

record message =
  msg_role :: role
  msg_content :: string

text \<open>
  The text of an \<^verbatim>\<open>addMessage\<close>: a string, or the template that lists the created files
  in front of the response (it starts with a check mark, a code unit above 255, so it is
  kept as a constructor).
\<close>

datatype chat_text = Text string | CreatedFiles "string list" string

datatype ui_message =
    AddMessage chat_text bool
  | SetTypingIndicator bool
  | AddTypingIndicator
  | RemoveTypingIndicator

text \<open>
  What the code does to the outside, in the order it does it. \<open>WriteFile\<close> is the call of
  \<^verbatim>\<open>fs.writeFile\<close> on \<^verbatim>\<open>path.join(workspacePath, fileName)\<close> (kept as the pair of its
  parts) with the content, and whether the write was fulfilled. \<open>ShowErrorMessage\<close> is
  \<^verbatim>\<open>vscode.window.showErrorMessage\<close>, \<open>PostMessage\<close> is \<^verbatim>\<open>webview.postMessage\<close>.
\<close>

datatype effect =
    ShowErrorMessage string
  | WriteFile string string string bool
  | OpenTextDocument string string
  | ShowTextDocument string string
  | PostMessage ui_message

section \<open>ArtifactWriter\<close>

text \<open>
  What one call of \<^verbatim>\<open>_createFile\<close> meets: the reading of \<^verbatim>\<open>Date.now()\<close>, and the message
  of the error with which \<^verbatim>\<open>fs.writeFile\<close>, \<^verbatim>\<open>openTextDocument\<close> or \<^verbatim>\<open>showTextDocument\<close>
  is rejected, if it is.
\<close>

record file_io =
  clock :: int
  write_error :: "string option"
  open_error :: "string option"
  show_error :: "string option"

definition no_first_folder :: string where
  \<comment> \<open>the message of the TypeError of \<^verbatim>\<open>workspaceFolders[0].uri\<close> on an empty array\<close>
  "no_first_folder = ''Cannot read properties of undefined (reading 'uri')''"

text \<open>
  \<^verbatim>\<open>workspaceFolders\<close> is \<open>None\<close> for \<^verbatim>\<open>undefined\<close>, else the paths of the folders. The
  result is the file name, or \<open>None\<close> for \<^verbatim>\<open>null\<close>. Everything from the write to the
  display is inside one \<^verbatim>\<open>try\<close>, so a rejected \<^verbatim>\<open>openTextDocument\<close> or
  \<^verbatim>\<open>showTextDocument\<close> ends in the \<^verbatim>\<open>catch\<close> too, after the file was written.
\<close>

definition createFile ::
  "string list option \<Rightarrow> file_io \<Rightarrow> string \<Rightarrow> jsprop \<Rightarrow> string option \<times> effect list" where
  "createFile workspaceFolders io content extension =
     (case workspaceFolders of
        None \<Rightarrow> (None, [ShowErrorMessage ''No workspace folder open''])
      | Some [] \<Rightarrow> (None, [ShowErrorMessage (''Error creating file: '' @ no_first_folder)])
      | Some (workspacePath # _) \<Rightarrow>
          (let fileName = fileNameFor (clock io) content extension in
           case write_error io of
             Some e \<Rightarrow>
               (None, [WriteFile workspacePath fileName content False,
                       ShowErrorMessage (''Error creating file: '' @ e)])
           | None \<Rightarrow>
              (case open_error io of
                 Some e \<Rightarrow>
                   (None, [WriteFile workspacePath fileName content True,
                           OpenTextDocument workspacePath fileName,
                           ShowErrorMessage (''Error creating file: '' @ e)])
               | None \<Rightarrow>
                  (case show_error io of
                     Some e \<Rightarrow>
                       (None, [WriteFile workspacePath fileName content True,
                               OpenTextDocument workspacePath fileName,
                               ShowTextDocument workspacePath fileName,
                               ShowErrorMessage (''Error creating file: '' @ e)])
                   | None \<Rightarrow>
                       (Some fileName, [WriteFile workspacePath fileName content True,
                                        OpenTextDocument workspacePath fileName,
                                        ShowTextDocument workspacePath fileName])))))"

text \<open>
  The \<^verbatim>\<open>for\<close> loop of \<^verbatim>\<open>_processResponseForFiles\<close>; the \<open>k\<close>-th call of \<^verbatim>\<open>_createFile\<close> of
  the turn meets \<open>io k\<close>. A name is pushed when it is truthy: not \<^verbatim>\<open>null\<close> and not empty.
\<close>

fun createAll ::
  "string list option \<Rightarrow> (nat \<Rightarrow> file_io) \<Rightarrow> nat \<Rightarrow> code_block list \<Rightarrow> string list \<times> effect list" where
  "createAll workspaceFolders io k [] = ([], [])"
| "createAll workspaceFolders io k (block # blocks) =
     (let extension = getFileExtension (language block);
          (fileName, effects) = createFile workspaceFolders (io k) (code block) extension;
          (createdFiles, later) = createAll workspaceFolders io (Suc k) blocks
      in ((case fileName of Some n \<Rightarrow> if n \<noteq> [] then [n] else [] | None \<Rightarrow> []) @ createdFiles,
          effects @ later))"

definition processResponseForFiles ::
  "string list option \<Rightarrow> (nat \<Rightarrow> file_io) \<Rightarrow> string \<Rightarrow> string list \<times> effect list" where
  "processResponseForFiles workspaceFolders io response =
     (let codeBlocks = extractCodeBlocks response in
      if codeBlocks = [] then ([], []) else createAll workspaceFolders io 0 codeBlocks)"

text \<open>
  For the statements about \<open>processResponseForFiles\<close>: the call succeeds (returns a name),
  the names of the files whose write was fulfilled, the writes attempted, and the errors
  shown.
\<close>

definition succeeds :: "string list option \<Rightarrow> file_io \<Rightarrow> bool" where
  "succeeds workspaceFolders io =
     ((case workspaceFolders of Some (_ # _) \<Rightarrow> True | _ \<Rightarrow> False) \<and>
      write_error io = None \<and> open_error io = None \<and> show_error io = None)"

fun written_names :: "effect list \<Rightarrow> string list" where
  "written_names [] = []"
| "written_names (WriteFile dir name content ok # es) =
     (if ok then name # written_names es else written_names es)"
| "written_names (e # es) = written_names es"

fun attempted_writes :: "effect list \<Rightarrow> (string \<times> string) list" where
  "attempted_writes [] = []"
| "attempted_writes (WriteFile dir name content ok # es) = (name, content) # attempted_writes es"
| "attempted_writes (e # es) = attempted_writes es"

fun shown_errors :: "effect list \<Rightarrow> string list" where
  "shown_errors [] = []"
| "shown_errors (ShowErrorMessage m # es) = m # shown_errors es"
| "shown_errors (e # es) = shown_errors es"

definition name_of :: "(nat \<Rightarrow> file_io) \<Rightarrow> nat \<times> code_block \<Rightarrow> string" where
  \<comment> \<open>the name the \<open>k\<close>-th call gives the file of a block\<close>
  "name_of io = (\<lambda>(k, b). fileNameFor (clock (io k)) (code b) (getFileExtension (language b)))"

text \<open>
  Two surroundings for concrete turns: one in which every \<^verbatim>\<open>openTextDocument\<close> is
  rejected, and one in which the write of the second block is rejected.
\<close>

definition io_open_rejected :: "nat \<Rightarrow> file_io" where
  "io_open_rejected k =
     \<lparr>clock = 1700000000000 + int k, write_error = None,
      open_error = Some ''cannot open file'', show_error = None\<rparr>"

definition io_second_write_fails :: "nat \<Rightarrow> file_io" where
  "io_second_write_fails k =
     \<lparr>clock = 1700000000000 + int k,
      write_error = (if k = 1 then Some ''EACCES: permission denied'' else None),
      open_error = None, show_error = None\<rparr>"

section \<open>CompletionClient\<close>

text \<open>
  The value \<^verbatim>\<open>JSON.parse\<close> returns. A number is the double the parser produced: a
  rational, or an infinity for a literal out of range. An object is the list of its own
  properties, read with \<open>map_of\<close>.
\<close>

datatype number = Finite rat | PosInfinity | NegInfinity

datatype json =
    JNull
  | JBool bool
  | JNum number
  | JStr string
  | JArr "json list"
  | JObj "(string \<times> json) list"

datatype jsval = Undefined | Val json

text \<open>
  The built-in functions the client calls, taken as parameters: \<^verbatim>\<open>JSON.parse\<close> (\<open>None\<close>
  when it throws), \<^verbatim>\<open>new URL\<close> (host name and path; \<open>None\<close> when it throws), the
  conversion of a value that is not a string to a string in a template literal, and the
  comparison \<^verbatim>\<open>> 0\<close> for an operand that is a string, an array or an object (\<open>None\<close>
  when the conversion throws).
\<close>

record engine =
  JSON_parse :: "string \<Rightarrow> json option"
  URL_parse :: "string \<Rightarrow> (string \<times> string) option"
  ToString :: "json \<Rightarrow> string option"
  greater_than_zero :: "json \<Rightarrow> bool option"

fun truthy :: "jsval \<Rightarrow> bool" where
  "truthy Undefined = False"
| "truthy (Val JNull) = False"
| "truthy (Val (JBool b)) = b"
| "truthy (Val (JNum (Finite r))) = (r \<noteq> 0)"
| "truthy (Val (JNum PosInfinity)) = True"
| "truthy (Val (JNum NegInfinity)) = True"
| "truthy (Val (JStr s)) = (s \<noteq> [])"
| "truthy (Val (JArr xs)) = True"
| "truthy (Val (JObj kv)) = True"

text \<open>
  \<^verbatim>\<open>v.name\<close> for a name that no built-in prototype defines (\<^verbatim>\<open>choices\<close>, \<^verbatim>\<open>message\<close>,
  \<^verbatim>\<open>content\<close>, \<^verbatim>\<open>error\<close>): a TypeError (\<open>None\<close>) on \<^verbatim>\<open>null\<close> and \<^verbatim>\<open>undefined\<close>, the own
  property of an object, \<^verbatim>\<open>undefined\<close> on every other value.
\<close>

fun member :: "string \<Rightarrow> jsval \<Rightarrow> jsval option" where
  "member name Undefined = None"
| "member name (Val JNull) = None"
| "member name (Val (JObj kv)) =
     Some (case map_of kv name of Some x \<Rightarrow> Val x | None \<Rightarrow> Undefined)"
| "member name (Val v) = Some Undefined"

fun js_length :: "json \<Rightarrow> jsval" where
  \<comment> \<open>\<^verbatim>\<open>v.length\<close> on a value that is not \<^verbatim>\<open>null\<close>\<close>
  "js_length (JArr xs) = Val (JNum (Finite (of_nat (length xs))))"
| "js_length (JStr s) = Val (JNum (Finite (of_nat (length s))))"
| "js_length (JObj kv) = (case map_of kv ''length'' of Some x \<Rightarrow> Val x | None \<Rightarrow> Undefined)"
| "js_length v = Undefined"

fun first :: "json \<Rightarrow> jsval" where
  \<comment> \<open>\<^verbatim>\<open>v[0]\<close> on a value that is not \<^verbatim>\<open>null\<close>\<close>
  "first (JArr []) = Undefined"
| "first (JArr (x # xs)) = Val x"
| "first (JStr []) = Undefined"
| "first (JStr (c # cs)) = Val (JStr [c])"
| "first (JObj kv) = (case map_of kv ''0'' of Some x \<Rightarrow> Val x | None \<Rightarrow> Undefined)"
| "first v = Undefined"

fun gt_zero :: "engine \<Rightarrow> jsval \<Rightarrow> bool option" where
  \<comment> \<open>\<^verbatim>\<open>v > 0\<close>; \<^verbatim>\<open>undefined\<close> converts to NaN, \<^verbatim>\<open>null\<close> to 0\<close>
  "gt_zero eng Undefined = Some False"
| "gt_zero eng (Val JNull) = Some False"
| "gt_zero eng (Val (JBool b)) = Some b"
| "gt_zero eng (Val (JNum (Finite r))) = Some (0 < r)"
| "gt_zero eng (Val (JNum PosInfinity)) = Some True"
| "gt_zero eng (Val (JNum NegInfinity)) = Some False"
| "gt_zero eng (Val v) = greater_than_zero eng v"

fun to_string :: "engine \<Rightarrow> jsval \<Rightarrow> string option" where
  \<comment> \<open>a value in a template literal\<close>
  "to_string eng Undefined = Some ''undefined''"
| "to_string eng (Val (JStr s)) = Some s"
| "to_string eng (Val v) = ToString eng v"

definition failed_to_parse :: string where
  "failed_to_parse = ''Failed to parse API response''"

definition no_response :: string where
  "no_response = ''No response from API''"

definition authentication_failed :: string where
  "authentication_failed = ''Authentication failed. Please check your API key in settings.''"

text \<open>
  The branch for status 200, on the body received. Every exception raised inside the
  \<^verbatim>\<open>try\<close> (by \<^verbatim>\<open>JSON.parse\<close>, by a property read on \<^verbatim>\<open>null\<close> or \<^verbatim>\<open>undefined\<close>, by the
  comparison) ends in the \<^verbatim>\<open>catch\<close>.
\<close>

definition on_ok :: "engine \<Rightarrow> string \<Rightarrow> string + jsval" where
  "on_ok eng data =
     (case JSON_parse eng data of
        None \<Rightarrow> Inl failed_to_parse
      | Some response \<Rightarrow>
         (case member ''choices'' (Val response) of
            None \<Rightarrow> Inl failed_to_parse
          | Some Undefined \<Rightarrow> Inl no_response
          | Some (Val choices) \<Rightarrow>
             if \<not> truthy (Val choices) then Inl no_response
             else
              (case gt_zero eng (js_length choices) of
                 None \<Rightarrow> Inl failed_to_parse
               | Some False \<Rightarrow> Inl no_response
               | Some True \<Rightarrow>
                  (case member ''message'' (first choices) of
                     None \<Rightarrow> Inl failed_to_parse
                   | Some msg \<Rightarrow>
                      (case member ''content'' msg of
                         None \<Rightarrow> Inl failed_to_parse
                       | Some content \<Rightarrow> Inr content)))))"

text \<open>
  The branch for every status other than 200 and 401:
  \<^verbatim>\<open>errorResponse.error?.message || data\<close>, and the raw body when anything throws.
\<close>

definition error_detail :: "engine \<Rightarrow> string \<Rightarrow> string" where
  "error_detail eng data =
     (case JSON_parse eng data of
        None \<Rightarrow> data
      | Some errorResponse \<Rightarrow>
         (case member ''error'' (Val errorResponse) of
            None \<Rightarrow> data
          | Some err \<Rightarrow>
             (let msg = (case member ''message'' err of None \<Rightarrow> Undefined | Some m \<Rightarrow> m)
              in if truthy msg then (case to_string eng msg of Some s \<Rightarrow> s | None \<Rightarrow> data)
                 else data)))"

definition api_error :: "engine \<Rightarrow> nat \<Rightarrow> string \<Rightarrow> string" where
  "api_error eng status data = ''API error: '' @ decimal status @ '' - '' @ error_detail eng data"

text \<open>
  The request of \<^verbatim>\<open>_callDeepSeekAPI\<close>: host name and path of the endpoint, the
  \<^verbatim>\<open>Authorization\<close> header, and the fields \<^verbatim>\<open>model\<close>, \<^verbatim>\<open>messages\<close> and \<^verbatim>\<open>max_tokens\<close> of the
  body (\<^verbatim>\<open>temperature\<close> and \<^verbatim>\<open>stream\<close> are constants).
\<close>

record request =
  req_hostname :: string
  req_path :: string
  req_authorization :: string
  req_model :: string
  req_messages :: "message list"
  req_max_tokens :: int

text \<open>
  What comes back for a request: \<^verbatim>\<open>https.request\<close> throws at once (\<open>RequestThrows\<close>, for
  example on a header value it refuses), the request emits \<^verbatim>\<open>error\<close>, or the response
  ends with a status code and a body.
\<close>

datatype http_outcome = RequestThrows | TransportError string | Response nat string

text \<open>
  \<^verbatim>\<open>_callDeepSeekAPI\<close>: the value the promise settles with (\<open>Inl\<close> the message of the
  error it is rejected with) and the requests sent. There is one request at most: no path
  of the function sends a second one.
\<close>

definition callDeepSeekAPI ::
  "engine \<Rightarrow> string \<Rightarrow> string \<Rightarrow> string \<Rightarrow> message list \<Rightarrow> int \<Rightarrow> http_outcome \<Rightarrow>
   (string + jsval) \<times> request list" where
  "callDeepSeekAPI eng endpoint apiKey model messages maxTokens outcome =
     (case URL_parse eng endpoint of
        None \<Rightarrow> (Inl (''Invalid API endpoint: '' @ endpoint), [])
      | Some (hostname, pathname) \<Rightarrow>
         (let req = \<lparr>req_hostname = hostname, req_path = pathname,
                     req_authorization = ''Bearer '' @ apiKey, req_model = model,
                     req_messages = messages, req_max_tokens = maxTokens\<rparr>
          in case outcome of
               RequestThrows \<Rightarrow> (Inl (''Invalid API endpoint: '' @ endpoint), [])
             | TransportError e \<Rightarrow> (Inl e, [req])
             | Response status data \<Rightarrow>
                 (if status = 200 then on_ok eng data
                  else if status = 401 then Inl authentication_failed
                  else Inl (api_error eng status data),
                  [req])))"

text \<open>
  The claim about status 200 as the specification words it: the body parses and contains
  a non-empty list of choices.
\<close>

definition has_choices :: "engine \<Rightarrow> string \<Rightarrow> bool" where
  "has_choices eng data =
     (case JSON_parse eng data of
        Some (JObj kv) \<Rightarrow>
          (case map_of kv ''choices'' of Some (JArr (x # xs)) \<Rightarrow> True | _ \<Rightarrow> False)
      | _ \<Rightarrow> False)"

text \<open>
  An engine for concrete calls: it parses the one endpoint and the bodies used below.
\<close>

definition sample_endpoint :: string where
  "sample_endpoint = ''https://api.deepseek.com/v1/chat/completions''"

definition body_empty_choice :: string where
  \<open>body_empty_choice = ''{"choices":[{}]}''\<close>

definition body_hello :: string where
  \<open>body_hello = ''{"choices":[{"message":{"content":"hello"}}]}''\<close>

definition body_no_choices :: string where
  \<open>body_no_choices = ''{"choices":[]}''\<close>

definition sample_engine :: engine where
  "sample_engine =
     \<lparr>JSON_parse = (\<lambda>s.
         if s = body_empty_choice then Some (JObj [(''choices'', JArr [JObj []])])
         else if s = body_hello then
           Some (JObj [(''choices'', JArr [JObj [(''message'', JObj [(''content'', JStr ''hello'')])]])])
         else if s = body_no_choices then Some (JObj [(''choices'', JArr [])])
         else if s = ''null'' then Some JNull
         else None),
      URL_parse = (\<lambda>s. if s = sample_endpoint then Some (''api.deepseek.com'', ''/v1/chat/completions'')
                       else None),
      ToString = (\<lambda>v. None),
      greater_than_zero = (\<lambda>v. None)\<rparr>"

section \<open>ConversationSession\<close>

text \<open>
  The fields of \<^verbatim>\<open>DeepseekChatViewProvider\<close>; \<open>view\<close> says that \<^verbatim>\<open>_view\<close> is set.
\<close>

record provider =
  view :: bool
  conversationHistory :: "message list"
  isProcessing :: bool
  selectedModel :: string

text \<open>
  The settings under \<^verbatim>\<open>deepseek\<close>: \<^verbatim>\<open>config.get\<close> gives the value or \<^verbatim>\<open>undefined\<close>.
  \<open>configuredModel\<close> is the setting \<^verbatim>\<open>model\<close>, which only the variant with the key probe
  reads.
\<close>

record configuration =
  apiKey :: "string option"
  endpoint :: "string option"
  maxResponseTokens :: "int option"
  allowEditing :: "bool option"
  configuredModel :: "string option"

text \<open>\<^verbatim>\<open>x || d\<close> on a string, a number and a Boolean setting.\<close>

definition or_string :: "string option \<Rightarrow> string \<Rightarrow> string" where
  "or_string x d = (case x of Some s \<Rightarrow> if s \<noteq> [] then s else d | None \<Rightarrow> d)"

definition or_number :: "int option \<Rightarrow> int \<Rightarrow> int" where
  "or_number x d = (case x of Some n \<Rightarrow> if n \<noteq> 0 then n else d | None \<Rightarrow> d)"

definition or_bool :: "bool option \<Rightarrow> bool \<Rightarrow> bool" where
  "or_bool x d = (case x of Some b \<Rightarrow> if b then b else d | None \<Rightarrow> d)"

definition safePostMessage :: "provider \<Rightarrow> ui_message \<Rightarrow> effect list" where
  "safePostMessage p m = (if view p then [PostMessage m] else [])"

definition please_set_key :: string where
  "please_set_key = ''Error: Please set your DeepSeek API key in settings.''"

text \<open>
  The call of \<^verbatim>\<open>_callDeepSeekAPI\<close> that a turn awaits, with its arguments.
\<close>

record api_call =
  call_endpoint :: string
  call_apiKey :: string
  call_model :: string
  call_messages :: "message list"
  call_maxTokens :: int

text \<open>
  \<^verbatim>\<open>_handleMessage\<close> is an \<^verbatim>\<open>async\<close> function. It runs without interruption up to its
  first \<^verbatim>\<open>await\<close>: either it has returned by then (\<open>Finished\<close>: the provider and the
  effects so far), or it waits for \<^verbatim>\<open>_callDeepSeekAPI\<close> (\<open>Awaiting\<close>: the provider, the
  effects so far, the call, and the constant \<^verbatim>\<open>allowEditing\<close> it holds). A request is sent
  only by that call. Other events of the webview are handled while it waits.
\<close>

datatype turn =
    Finished provider "effect list"
  | Awaiting provider "effect list" api_call bool

definition handleMessage_begin :: "configuration \<Rightarrow> provider \<Rightarrow> string \<Rightarrow> string \<Rightarrow> turn" where
  "handleMessage_begin config p message model =
     (if \<not> view p \<or> isProcessing p then Finished p []
      else
       (let p1 = p\<lparr>isProcessing := True, selectedModel := model,
                    conversationHistory :=
                      conversationHistory p @ [\<lparr>msg_role = User, msg_content = message\<rparr>]\<rparr>;
            endpoint' = or_string (endpoint config) ''https://api.deepseek.com/v1/chat/completions'';
            maxTokens = or_number (maxResponseTokens config) 1024;
            allowEditing' = or_bool (allowEditing config) True
        in case apiKey config of
             None \<Rightarrow>
               Finished (p1\<lparr>isProcessing := False\<rparr>)
                 (safePostMessage p1 (AddMessage (Text please_set_key) False))
           | Some key \<Rightarrow>
               if key = [] then
                 Finished (p1\<lparr>isProcessing := False\<rparr>)
                   (safePostMessage p1 (AddMessage (Text please_set_key) False))
               else
                 Awaiting p1 (safePostMessage p1 (SetTypingIndicator True))
                   \<lparr>call_endpoint = endpoint', call_apiKey = key, call_model = model,
                    call_messages = conversationHistory p1, call_maxTokens = maxTokens\<rparr>
                   allowEditing'))"

text \<open>
  The rest of the turn, once the promise is settled: \<open>Inl\<close> the message of the error it
  was rejected with (the \<^verbatim>\<open>catch\<close>), \<open>Inr\<close> the response, a string by the declared type
  \<^verbatim>\<open>Promise<string>\<close>. The \<^verbatim>\<open>finally\<close> resets \<^verbatim>\<open>_isProcessing\<close> on both paths.
\<close>

definition handleMessage_settle ::
  "string list option \<Rightarrow> (nat \<Rightarrow> file_io) \<Rightarrow> bool \<Rightarrow> provider \<Rightarrow> string + string \<Rightarrow>
   provider \<times> effect list" where
  "handleMessage_settle workspaceFolders io allowEditing' p settled =
     (case settled of
        Inr response \<Rightarrow>
          (let p2 = p\<lparr>conversationHistory :=
                       conversationHistory p @ [\<lparr>msg_role = Assistant, msg_content = response\<rparr>]\<rparr>;
               indicator = safePostMessage p2 (SetTypingIndicator False);
               (createdFiles, files) =
                 (if allowEditing' then processResponseForFiles workspaceFolders io response
                  else ([], []));
               shown =
                 (if createdFiles \<noteq> []
                  then safePostMessage p2 (AddMessage (CreatedFiles createdFiles response) False)
                  else safePostMessage p2 (AddMessage (Text response) False))
           in (p2\<lparr>isProcessing := False\<rparr>, indicator @ files @ shown))
      | Inl errorMessage \<Rightarrow>
          (p\<lparr>isProcessing := False\<rparr>,
           safePostMessage p (SetTypingIndicator False) @
           safePostMessage p (AddMessage (Text (''Error: '' @ errorMessage)) False)))"

text \<open>
  A whole turn in which nothing else happens to the provider while it waits.
\<close>

definition handleMessage ::
  "configuration \<Rightarrow> string list option \<Rightarrow> (nat \<Rightarrow> file_io) \<Rightarrow> string + string \<Rightarrow>
   provider \<Rightarrow> string \<Rightarrow> string \<Rightarrow> provider \<times> effect list" where
  "handleMessage config workspaceFolders io settled p message model =
     (case handleMessage_begin config p message model of
        Finished p' effects \<Rightarrow> (p', effects)
      | Awaiting p' effects call allowEditing' \<Rightarrow>
          (let (p'', later) = handleMessage_settle workspaceFolders io allowEditing' p' settled
           in (p'', effects @ later)))"

text \<open>
  What the promise of a call settles with when the content of the reply is a string.
\<close>

definition settled_with :: "engine \<Rightarrow> api_call \<Rightarrow> http_outcome \<Rightarrow> (string + string) option" where
  "settled_with eng call outcome =
     (case fst (callDeepSeekAPI eng (call_endpoint call) (call_apiKey call) (call_model call)
                  (call_messages call) (call_maxTokens call) outcome) of
        Inl e \<Rightarrow> Some (Inl e)
      | Inr (Val (JStr s)) \<Rightarrow> Some (Inr s)
      | Inr v \<Rightarrow> None)"

subsection \<open>The variant with the key probe\<close>

text \<open>
  The second source file holds a variant of the provider without \<^verbatim>\<open>_isProcessing\<close> and
  without files: its \<^verbatim>\<open>_handleMessage\<close> probes the key with \<^verbatim>\<open>_testApiKey\<close>, then calls
  \<^verbatim>\<open>_callDeepSeekAPI\<close>. The turn is given what the two promises settle with; it reads
  \<open>isValidKey\<close> only when it got as far as the probe, and \<open>settled\<close> only when it got as
  far as the call. The fields \<open>isProcessing\<close> and \<open>selectedModel\<close> stay as they are.
\<close>

definition invalid_key :: string where
  "invalid_key = ''Error: Invalid API key. Please check your DeepSeek API key in settings.''"

definition view_not_available :: string where
  "view_not_available = ''Chat view is not available. Please try reopening the chat.''"

definition handleMessage_probing ::
  "configuration \<Rightarrow> bool \<Rightarrow> string + string \<Rightarrow> provider \<Rightarrow> string \<Rightarrow> provider \<times> effect list" where
  "handleMessage_probing config isValidKey settled p message =
     (if \<not> view p then (p, [ShowErrorMessage view_not_available])
      else
       (let p1 = p\<lparr>conversationHistory :=
                      conversationHistory p @ [\<lparr>msg_role = User, msg_content = message\<rparr>]\<rparr>
        in if (case apiKey config of None \<Rightarrow> True | Some key \<Rightarrow> key = []) then
             (p1, safePostMessage p1 (AddMessage (Text please_set_key) False))
           else if \<not> isValidKey then
             (p1, safePostMessage p1 (AddMessage (Text invalid_key) False))
           else
            (case settled of
               Inr response \<Rightarrow>
                 (let p2 = p1\<lparr>conversationHistory :=
                                conversationHistory p1 @
                                [\<lparr>msg_role = Assistant, msg_content = response\<rparr>]\<rparr>
                  in (p2, safePostMessage p1 AddTypingIndicator @
                          safePostMessage p1 RemoveTypingIndicator @
                          safePostMessage p2 (AddMessage (Text response) False)))
             | Inl errorMessage \<Rightarrow>
                 (p1, safePostMessage p1 AddTypingIndicator @
                      safePostMessage p1 RemoveTypingIndicator @
                      safePostMessage p1 (AddMessage (Text (''Error: '' @ errorMessage)) False)))))"

text \<open>
  The same handler up to its first \<^verbatim>\<open>await\<close>: it has returned by then (\<open>Returned\<close>), or
  it waits for \<^verbatim>\<open>_testApiKey\<close>, called with the key and the endpoint, which sends the probe
  request (\<open>AwaitingProbe\<close>). A message that arrives during that wait, or during the later
  wait for \<^verbatim>\<open>_callDeepSeekAPI\<close>, is handled by this same function on the provider as it
  stands then.
\<close>

datatype probe_turn =
    Returned provider "effect list"
  | AwaitingProbe provider string string

definition handleMessage_probing_begin :: "configuration \<Rightarrow> provider \<Rightarrow> string \<Rightarrow> probe_turn" where
  "handleMessage_probing_begin config p message =
     (if \<not> view p then Returned p [ShowErrorMessage view_not_available]
      else
       (let p1 = p\<lparr>conversationHistory :=
                      conversationHistory p @ [\<lparr>msg_role = User, msg_content = message\<rparr>]\<rparr>;
            endpoint' = or_string (endpoint config) ''https://api.deepseek.com/v1/chat/completions''
        in case apiKey config of
             None \<Rightarrow> Returned p1 (safePostMessage p1 (AddMessage (Text please_set_key) False))
           | Some key \<Rightarrow>
               if key = [] then
                 Returned p1 (safePostMessage p1 (AddMessage (Text please_set_key) False))
               else AwaitingProbe p1 key endpoint'))"

text \<open>
  Concrete surroundings: a provider with the view attached and nothing in flight, the
  settings with file editing switched off, and a clock that ticks at every call.
\<close>

definition idle_provider :: provider where
  "idle_provider =
     \<lparr>view = True, conversationHistory = [], isProcessing = False, selectedModel = ''deepseek-chat''\<rparr>"

definition config_editing_off :: configuration where
  "config_editing_off =
     \<lparr>apiKey = Some ''sk-test'', endpoint = None, maxResponseTokens = None,
      allowEditing = Some False, configuredModel = None\<rparr>"

definition io_fine :: "nat \<Rightarrow> file_io" where
  "io_fine k =
     \<lparr>clock = 1700000000000 + int k, write_error = None, open_error = None, show_error = None\<rparr>"

definition response_with_script :: string where
  "response_with_script =
     ''Here you go:'' @ line_feed # fence @ ''javascript'' @ line_feed # ''let x = 1;'' @ closing"

section \<open>Properties\<close>

subsection \<open>The extension of a tag\<close>

lemma letters_disjoint: "list_all (\<lambda>d. d \<notin> set upper_letters) lower_letters"
  by code_simp

lemma lower_char_table:
  assumes "map_of (zip upper_letters lower_letters) c = Some d"
  shows "map_of (zip upper_letters lower_letters) d = None"
proof -
  from assms have "d \<in> set lower_letters"
    by (meson map_of_SomeD set_zip_rightD)
  with letters_disjoint have "d \<notin> set upper_letters"
    by (simp add: list_all_iff)
  then show ?thesis
    by (auto simp: map_of_eq_None_iff dest: set_zip_leftD)
qed

lemma lower_char_idem: "lower_char (lower_char c) = lower_char c"
  by (auto simp: lower_char_def dest: lower_char_table split: option.splits)

lemma toLowerCase_idem: "toLowerCase (toLowerCase s) = toLowerCase s"
  by (simp add: toLowerCase_def lower_char_idem)

text \<open>
  The half of the claim about letter case: a tag and the tag with any of its characters
  replaced by their lower-case form have the same extension.
\<close>

lemma getFileExtension_case_insensitive:
  "list_all2 (\<lambda>a b. b = a \<or> b = lower_char a \<or> a = lower_char b) s t \<Longrightarrow>
   getFileExtension s = getFileExtension t"
proof -
  assume h: "list_all2 (\<lambda>a b. b = a \<or> b = lower_char a \<or> a = lower_char b) s t"
  then have "toLowerCase s = toLowerCase t"
    unfolding toLowerCase_def
    by (induction rule: list_all2_induct) (auto simp: lower_char_idem)
  then show ?thesis by (simp add: getFileExtension_def)
qed

lemma getFileExtension_Python: "getFileExtension ''Python'' = getFileExtension ''python''"
  by code_simp

text \<open>
  The fallback itself: a tag whose lower-case form is neither a key of the table nor the
  name of a member of \<^verbatim>\<open>Object.prototype\<close> has the extension \<^verbatim>\<open>txt\<close>.
\<close>

lemma getFileExtension_unknown:
  "toLowerCase lang \<notin> set (map fst extensionMap) \<Longrightarrow>
   toLowerCase lang \<notin> set object_prototype_names \<Longrightarrow>
   getFileExtension lang = Str ''txt''"
proof -
  assume "toLowerCase lang \<notin> set (map fst extensionMap)"
  then have "map_of extensionMap (toLowerCase lang) = None"
    by (simp add: map_of_eq_None_iff)
  moreover assume "toLowerCase lang \<notin> set object_prototype_names"
  ultimately show ?thesis by (simp add: getFileExtension_def object_get_def)
qed

text \<open>
  C9. The claim: every tag outside the known-language mapping yields the extension
  \<^verbatim>\<open>txt\<close>. The tag \<^verbatim>\<open>constructor\<close> is outside the mapping and the code returns for it not
  \<^verbatim>\<open>txt\<close> but the member \<^verbatim>\<open>constructor\<close> that the table inherits from \<^verbatim>\<open>Object.prototype\<close>.
\<close>

theorem getFileExtension_constructor:
  "\<not> known_language ''constructor'' \<and>
   getFileExtension ''constructor'' = Inherited ''constructor'' \<and>
   getFileExtension ''constructor'' \<noteq> Str ''txt''"
  by code_simp

subsection \<open>Extraction of code blocks\<close>

text \<open>
  Why \<open>match_here\<close> needs no shorter tag: what follows a shorter run of word characters
  starts with a word character, and there the rest of the expression fails.
\<close>

lemma after_tag_word: "is_word c \<Longrightarrow> after_tag (c # cs) = None"
proof -
  assume "is_word c"
  then have "\<not> is_space c" by (auto simp: is_word_def is_space_def Let_def)
  then show ?thesis by simp
qed















lemma extractCodeBlocks_blank_line:
  "extractCodeBlocks (fence @ [line_feed, line_feed] @ fence @ line_feed # ''foo'' @ closing) =
     [\<lparr>language = [], code = fence @ line_feed # ''foo''\<rparr>]"
  by (simp add: extractCodeBlocks_def match_here_def fence_def closing_def
      line_feed_def starts_with_def is_word_def is_space_def trim_def)






















subsection \<open>File names\<close>

lemma digit_char_inj: "a < 10 \<Longrightarrow> b < 10 \<Longrightarrow> digit_char a = digit_char b \<Longrightarrow> a = b"
proof -
  assume a: "a < 10" and b: "b < 10" and e: "digit_char a = digit_char b"
  have d: "distinct ''0123456789''" by simp
  have l: "length ''0123456789'' = 10" by simp
  from a b e have "''0123456789'' ! a = ''0123456789'' ! b" by (simp add: digit_char_def)
  with d a b l show "a = b" by (metis nth_eq_iff_index_eq)
qed

lemma digit_char_digit: "digit_char d \<in> set ''0123456789''"
proof -
  have "d mod 10 < length ''0123456789''" by simp
  then show ?thesis unfolding digit_char_def by (rule nth_mem)
qed

lemma decimal_digits: "set (decimal n) \<subseteq> set ''0123456789''"
proof (induction n rule: decimal.induct)
  case (1 n)
  show ?case
  proof (cases "n < 10")
    case True
    then have "decimal n = [digit_char n]" by (simp add: decimal.simps)
    with digit_char_digit[of n] show ?thesis by simp
  next
    case False
    then have "decimal n = decimal (n div 10) @ [digit_char (n mod 10)]"
      by (subst decimal.simps) simp
    with 1 False digit_char_digit[of "n mod 10"] show ?thesis by simp
  qed
qed

lemma decimal_nonempty: "decimal n \<noteq> []"
  by (subst decimal.simps) simp

lemma decimal_inj: "decimal n = decimal m \<Longrightarrow> n = m"
proof (induction n arbitrary: m rule: decimal.induct)
  case (1 n)
  show ?case
  proof (cases "n < 10")
    case True
    then have n: "decimal n = [digit_char n]" by (simp add: decimal.simps)
    show ?thesis
    proof (cases "m < 10")
      case mt: True
      then have "decimal m = [digit_char m]" by (simp add: decimal.simps)
      with n "1.prems" True mt show ?thesis by (auto dest: digit_char_inj)
    next
      case mf: False
      then have "decimal m = decimal (m div 10) @ [digit_char (m mod 10)]"
        by (subst decimal.simps) simp
      with n "1.prems" decimal_nonempty[of "m div 10"] show ?thesis by (cases "decimal (m div 10)") auto
    qed
  next
    case False
    then have n: "decimal n = decimal (n div 10) @ [digit_char (n mod 10)]"
      by (subst decimal.simps) simp
    show ?thesis
    proof (cases "m < 10")
      case mt: True
      then have "decimal m = [digit_char m]" by (simp add: decimal.simps)
      with n "1.prems" decimal_nonempty[of "n div 10"] show ?thesis by (cases "decimal (n div 10)") auto
    next
      case mf: False
      then have "decimal m = decimal (m div 10) @ [digit_char (m mod 10)]"
        by (subst decimal.simps) simp
      with n "1.prems" have a: "decimal (n div 10) = decimal (m div 10)"
        and b: "digit_char (n mod 10) = digit_char (m mod 10)" by auto
      from "1.IH"[OF False a] have "n div 10 = m div 10" .
      moreover from b have "n mod 10 = m mod 10" by (auto dest!: digit_char_inj[rotated 2])
      ultimately show ?thesis by (metis div_mult_mod_eq)
    qed
  qed
qed

lemma number_toString_chars:
  assumes "c \<in> set (number_toString i)"
  shows "c = CHR ''-'' \<or> c \<in> set ''0123456789''"
proof -
  from assms have "c = CHR ''-'' \<or> c \<in> set (decimal (nat (- i))) \<or> c \<in> set (decimal (nat i))"
    by (cases "i < 0") (auto simp: number_toString_def)
  with decimal_digits show ?thesis by blast
qed

lemma number_toString_inj: "number_toString i = number_toString j \<Longrightarrow> i = j"
proof -
  assume e: "number_toString i = number_toString j"
  have nm: "CHR ''-'' \<notin> set (decimal k)" for k
  proof
    assume "CHR ''-'' \<in> set (decimal k)"
    with decimal_digits[of k] have "CHR ''-'' \<in> set ''0123456789''" by blast
    then show False by simp
  qed
  have hd: "decimal k \<noteq> CHR ''-'' # s" for k s using nm[of k] by (metis list.set_intros(1))
  show ?thesis
  proof (cases "i < 0")
    case True
    show ?thesis
    proof (cases "j < 0")
      case jt: True
      with True e have "decimal (nat (- i)) = decimal (nat (- j))" by (simp add: number_toString_def)
      then have "nat (- i) = nat (- j)" by (rule decimal_inj)
      with True jt show ?thesis by simp
    next
      case jf: False
      with True e hd show ?thesis by (simp add: number_toString_def) metis
    qed
  next
    case False
    show ?thesis
    proof (cases "j < 0")
      case jt: True
      with False e hd show ?thesis by (simp add: number_toString_def)
    next
      case jf: False
      with False e have "decimal (nat i) = decimal (nat j)" by (simp add: number_toString_def)
      then have "nat i = nat j" by (rule decimal_inj)
      with False jf show ?thesis by simp
    qed
  qed
qed

lemma split_at_dot:
  assumes "CHR ''.'' \<notin> set a" "CHR ''.'' \<notin> set b" "a @ CHR ''.'' # x = b @ CHR ''.'' # y"
  shows "a = b \<and> x = y"
proof -
  have tw: "CHR ''.'' \<notin> set u \<Longrightarrow> takeWhile (\<lambda>c. c \<noteq> CHR ''.'') (u @ CHR ''.'' # v) = u"
    for u v by (induction u) auto
  from assms(1) have "takeWhile (\<lambda>c. c \<noteq> CHR ''.'') (a @ CHR ''.'' # x) = a"
    by (rule tw)
  moreover from assms(2) have "takeWhile (\<lambda>c. c \<noteq> CHR ''.'') (b @ CHR ''.'' # y) = b"
    by (rule tw)
  ultimately have "a = b" using assms(3) by simp
  with assms(3) show ?thesis by simp
qed

lemma default_name_eq:
  "(default_name t1 e1 = default_name t2 e2) = (t1 = t2 \<and> render_prop e1 = render_prop e2)"
proof
  assume e: "default_name t1 e1 = default_name t2 e2"
  have nd: "CHR ''.'' \<notin> set (number_toString i)" for i
  proof
    assume "CHR ''.'' \<in> set (number_toString i)"
    from number_toString_chars[OF this] show False by simp
  qed
  from e have "number_toString t1 @ CHR ''.'' # render_prop e1 =
               number_toString t2 @ CHR ''.'' # render_prop e2"
    by (simp add: default_name_def)
  from split_at_dot[OF nd nd this] show "t1 = t2 \<and> render_prop e1 = render_prop e2"
    by (auto dest: number_toString_inj)
next
  assume "t1 = t2 \<and> render_prop e1 = render_prop e2"
  then show "default_name t1 e1 = default_name t2 e2" by (simp add: default_name_def)
qed

lemma fileNameFor_default: "falls_back content extension \<Longrightarrow>
  fileNameFor now content extension = default_name now extension"
  by (auto simp: falls_back_def fileNameFor_def Let_def split: option.splits)

text \<open>
  C3, amended. Two calls that fall back to the default name get the same name exactly
  when their readings of \<^verbatim>\<open>Date.now()\<close> agree and their extensions are written alike: the
  token is the millisecond clock, and there is no counter. So the names of two such calls
  are distinct whenever the clock readings differ.
\<close>

theorem default_names_distinct:
  "falls_back c1 e1 \<Longrightarrow> falls_back c2 e2 \<Longrightarrow>
   (fileNameFor t1 c1 e1 = fileNameFor t2 c2 e2) = (t1 = t2 \<and> render_prop e1 = render_prop e2)"
  by (simp add: fileNameFor_default default_name_eq)


text \<open>
  C3, the claim as worded fails: two calls with different contents in the same millisecond
  and with the same extension both fall back to the default name and get the same name.
\<close>

theorem default_names_same_tick_counterexample:
  "falls_back ''a = 1'' (Str ''txt'') \<and> falls_back ''b = 2'' (Str ''txt'') \<and>
   fileNameFor 1700000000000 ''a = 1'' (Str ''txt'') = fileNameFor 1700000000000 ''b = 2'' (Str ''txt'')"
  by (simp add: falls_back_def fileNameFor_def)

theorem default_names_distinct_witness:
  "falls_back ''a = 1'' (Str ''txt'') \<and> falls_back ''b = 2'' (Str ''txt'') \<and>
   fileNameFor 1700000000000 ''a = 1'' (Str ''txt'') \<noteq> fileNameFor 1700000000001 ''b = 2'' (Str ''txt'')"
  using default_names_distinct [of "''a = 1''" "Str ''txt''" "''b = 2''" "Str ''txt''" 1700000000000 1700000000001]
  by (simp add: falls_back_def)

lemma lower_char_underscore: "lower_char (CHR ''_'') = CHR ''_''"
  by code_simp

lemma slug_length: "length (slug t) = length t"
  by (simp add: slug_def toLowerCase_def)

lemma slug_nth:
  "i < length t \<Longrightarrow> slug t ! i = (if is_alnum (t ! i) then lower_char (t ! i) else CHR ''_'')"
  by (simp add: slug_def toLowerCase_def lower_char_underscore)

lemma toLowerCase_length: "length (toLowerCase s) = length s"
  by (simp add: toLowerCase_def)

lemma starts_with_ci_decomp:
  assumes "starts_with_ci m s"
  shows "s = take (length m) s @ drop (length m) s \<and> toLowerCase (take (length m) s) = m"
  using assms by (simp add: starts_with_ci_def)

lemma lazy_title_decomp:
  "lazy_title s = Some t \<Longrightarrow>
   \<exists>b post. s = t @ b @ post \<and> toLowerCase b = ''</title>'' \<and> \<not> list_ex is_line_terminator t"
proof (induction s arbitrary: t)
  case Nil
  then show ?case by simp
next
  case (Cons c cs)
  show ?case
  proof (cases "starts_with_ci ''</title>'' (c # cs)")
    case True
    with Cons.prems have "t = []" by simp
    with starts_with_ci_decomp[OF True]
    have "c # cs = t @ take (length ''</title>'') (c # cs) @ drop (length ''</title>'') (c # cs) \<and>
          toLowerCase (take (length ''</title>'') (c # cs)) = ''</title>'' \<and>
          \<not> list_ex is_line_terminator t" by simp
    then show ?thesis by blast
  next
    case False
    with Cons.prems have nl: "\<not> is_line_terminator c" by (auto split: if_splits)
    with False Cons.prems obtain t' where l: "lazy_title cs = Some t'" and t: "t = c # t'"
      by (auto split: option.splits)
    from Cons.IH[OF l] obtain b post where "cs = t' @ b @ post" "toLowerCase b = ''</title>''"
      "\<not> list_ex is_line_terminator t'" by blast
    with t nl have "c # cs = t @ b @ post \<and> toLowerCase b = ''</title>'' \<and>
      \<not> list_ex is_line_terminator t" by simp
    then show ?thesis by blast
  qed
qed

lemma title_match_decomp:
  "title_match s = Some t \<Longrightarrow>
   \<exists>pre a b post. s = pre @ a @ t @ b @ post \<and> toLowerCase a = ''<title>'' \<and>
      toLowerCase b = ''</title>'' \<and> \<not> list_ex is_line_terminator t"
proof (induction s)
  case Nil
  then show ?case by simp
next
  case (Cons c cs)
  let ?P = "\<lambda>s. \<exists>pre a b post. s = pre @ a @ t @ b @ post \<and> toLowerCase a = ''<title>'' \<and>
      toLowerCase b = ''</title>'' \<and> \<not> list_ex is_line_terminator t"
  have later: "?P (c # cs)" if "title_match cs = Some t"
  proof -
    from Cons.IH[OF that] obtain pre a b post where "cs = pre @ a @ t @ b @ post"
      "toLowerCase a = ''<title>''" "toLowerCase b = ''</title>''"
      "\<not> list_ex is_line_terminator t" by blast
    then have "c # cs = (c # pre) @ a @ t @ b @ post \<and> toLowerCase a = ''<title>'' \<and>
      toLowerCase b = ''</title>'' \<and> \<not> list_ex is_line_terminator t" by simp
    then show ?thesis by blast
  qed
  show ?case
  proof (cases "starts_with_ci ''<title>'' (c # cs)")
    case False
    with Cons.prems have "title_match cs = Some t" by simp
    then show ?thesis by (rule later)
  next
    case True
    show ?thesis
    proof (cases "lazy_title (drop (length ''<title>'') (c # cs))")
      case None
      with True Cons.prems have "title_match cs = Some t" by simp
      then show ?thesis by (rule later)
    next
      case (Some t')
      with True Cons.prems have "t' = t" by simp
      with Some lazy_title_decomp obtain b post where
        d: "drop (length ''<title>'') (c # cs) = t @ b @ post" and b: "toLowerCase b = ''</title>''"
        and nl: "\<not> list_ex is_line_terminator t" by blast
      from starts_with_ci_decomp[OF True] d
      have "c # cs = [] @ take (length ''<title>'') (c # cs) @ t @ b @ post \<and>
            toLowerCase (take (length ''<title>'') (c # cs)) = ''<title>''"
        by (metis append_Nil)
      with b nl show ?thesis by blast
    qed
  qed
qed

text \<open>
  C4, amended. For an HTML block in which the expression finds a title (the first place
  where \<^verbatim>\<open><title>\<close>, in any letter case, is followed on the same line by \<^verbatim>\<open></title>\<close>) and
  the text between the tags is not empty, the file name is that text with every
  character that is not alphanumeric replaced by one underscore, each on its own, in lower
  case, followed by \<^verbatim>\<open>.html\<close>: the base name is as long as the title. The witness is the
  block with \<^verbatim>\<open><title>My Page</title>\<close>, named \<^verbatim>\<open>my_page.html\<close>.
\<close>

theorem title_file_name:
  "title_match content = Some t \<Longrightarrow> t \<noteq> [] \<Longrightarrow>
   fileNameFor now content (Str ''html'') = slug t @ ''.html'' \<and>
   length (slug t) = length t \<and>
   (\<forall>i < length t. slug t ! i = (if is_alnum (t ! i) then lower_char (t ! i) else CHR ''_'')) \<and>
   (\<exists>pre a b post. content = pre @ a @ t @ b @ post \<and> toLowerCase a = ''<title>'' \<and>
      toLowerCase b = ''</title>'' \<and> \<not> list_ex is_line_terminator t)"
proof -
  assume m: "title_match content = Some t" and t: "t \<noteq> []"
  from m t have "fileNameFor now content (Str ''html'') = slug t @ ''.html''"
    by (simp add: fileNameFor_def)
  with title_match_decomp[OF m] show ?thesis
    by (simp add: slug_length slug_nth)
qed

theorem title_file_name_witness:
  "title_match ''<title>My Page</title>'' = Some ''My Page'' \<and> ''My Page'' \<noteq> [] \<and>
   fileNameFor 1700000000000 ''<title>My Page</title>'' (Str ''html'') = ''my_page.html''"
proof -
  have m: "title_match ''<title>My Page</title>'' = Some ''My Page''" by code_simp
  have s: "slug ''My Page'' = ''my_page''" by code_simp
  from title_file_name [OF m, of 1700000000000] s m show ?thesis by simp
qed

text \<open>
  C4, the claim as worded fails: a run of two spaces in the title gives two underscores,
  where the slug of the specification has one.
\<close>

theorem title_runs_not_collapsed_counterexample:
  "title_match ''<title>My  Page</title>'' = Some ''My  Page'' \<and>
   fileNameFor 1700000000000 ''<title>My  Page</title>'' (Str ''html'') = ''my__page.html'' \<and>
   spec_slug ''My  Page'' @ ''.html'' = ''my_page.html''"
proof -
  have m: "title_match ''<title>My  Page</title>'' = Some ''My  Page''" by code_simp
  have s: "slug ''My  Page'' = ''my__page''" by code_simp
  have c: "spec_slug ''My  Page'' = ''my_page''" by code_simp
  from m s c show ?thesis by (simp add: fileNameFor_def)
qed

subsection \<open>Writing the files of a response\<close>

lemma fileNameFor_nonempty: "fileNameFor now content extension \<noteq> []"
  by (auto simp: fileNameFor_def default_name_def Let_def split: option.splits)

lemma createFile_result:
  "fst (createFile f io content extension) =
     (if succeeds f io then Some (fileNameFor (clock io) content extension) else None)"
  by (auto simp: createFile_def succeeds_def Let_def split: option.splits list.splits)

lemma createFile_errors:
  "length (shown_errors (snd (createFile f io content extension))) = (if succeeds f io then 0 else 1)"
  by (auto simp: createFile_def succeeds_def Let_def split: option.splits list.splits)

lemma createFile_attempt:
  "attempted_writes (snd (createFile (Some (dir # dirs)) io content extension)) =
     [(fileNameFor (clock io) content extension, content)]"
  by (auto simp: createFile_def Let_def split: option.splits)

lemma shown_errors_append: "shown_errors (a @ b) = shown_errors a @ shown_errors b"
  by (induction a rule: shown_errors.induct) auto

lemma attempted_writes_append: "attempted_writes (a @ b) = attempted_writes a @ attempted_writes b"
  by (induction a rule: attempted_writes.induct) auto

lemma createAll_names:
  "fst (createAll f io k bs) =
     map (name_of io) (filter (\<lambda>(j, b). succeeds f (io j)) (enumerate k bs))"
proof (induction bs arbitrary: k)
  case Nil
  then show ?case by simp
next
  case (Cons b bs)
  obtain r e where c: "createFile f (io k) (code b) (getFileExtension (language b)) = (r, e)"
    by (cases "createFile f (io k) (code b) (getFileExtension (language b))")
  obtain ns es where a: "createAll f io (Suc k) bs = (ns, es)"
    by (cases "createAll f io (Suc k) bs")
  from createFile_result[of f "io k" "code b" "getFileExtension (language b)"] c
  have r: "r = (if succeeds f (io k) then Some (name_of io (k, b)) else None)"
    by (simp add: name_of_def)
  from Cons.IH[of "Suc k"] a
  have "ns = map (name_of io) (filter (\<lambda>(j, b). succeeds f (io j)) (enumerate (Suc k) bs))"
    by simp
  with c a r show ?case
    by (simp add: name_of_def fileNameFor_nonempty)
qed

lemma createAll_errors:
  "length (shown_errors (snd (createAll f io k bs))) =
     length (filter (\<lambda>(j, b). \<not> succeeds f (io j)) (enumerate k bs))"
proof (induction bs arbitrary: k)
  case Nil
  then show ?case by simp
next
  case (Cons b bs)
  obtain r e where c: "createFile f (io k) (code b) (getFileExtension (language b)) = (r, e)"
    by (cases "createFile f (io k) (code b) (getFileExtension (language b))")
  obtain ns es where a: "createAll f io (Suc k) bs = (ns, es)"
    by (cases "createAll f io (Suc k) bs")
  from createFile_errors[of f "io k" "code b" "getFileExtension (language b)"] c
  have "length (shown_errors e) = (if succeeds f (io k) then 0 else 1)" by simp
  moreover from Cons.IH[of "Suc k"] a
  have "length (shown_errors es) =
     length (filter (\<lambda>(j, b). \<not> succeeds f (io j)) (enumerate (Suc k) bs))" by simp
  ultimately show ?case using c a by (simp add: shown_errors_append)
qed

lemma createAll_attempts:
  "attempted_writes (snd (createAll (Some (dir # dirs)) io k bs)) =
     map (\<lambda>(j, b). (name_of io (j, b), code b)) (enumerate k bs)"
proof (induction bs arbitrary: k)
  case Nil
  then show ?case by simp
next
  case (Cons b bs)
  obtain r e where c: "createFile (Some (dir # dirs)) (io k) (code b) (getFileExtension (language b)) = (r, e)"
    by (cases "createFile (Some (dir # dirs)) (io k) (code b) (getFileExtension (language b))")
  obtain ns es where a: "createAll (Some (dir # dirs)) io (Suc k) bs = (ns, es)"
    by (cases "createAll (Some (dir # dirs)) io (Suc k) bs")
  from createFile_attempt[of dir dirs "io k" "code b" "getFileExtension (language b)"] c
  have "attempted_writes e = [(name_of io (k, b), code b)]" by (simp add: name_of_def)
  moreover from Cons.IH[of "Suc k"] a
  have "attempted_writes es = map (\<lambda>(j, b). (name_of io (j, b), code b)) (enumerate (Suc k) bs)"
    by simp
  ultimately show ?case using c a by (simp add: attempted_writes_append)
qed

text \<open>
  C7, amended. For every response, \<^verbatim>\<open>_processResponseForFiles\<close> goes through all the
  extracted blocks in extraction order: with a workspace folder it attempts one write per
  block, in that order; it returns, in that order, exactly the names of the blocks whose
  file was written and then opened and shown in the editor without an error; and it shows
  one error message for each other block. A block that fails is therefore not among the
  returned names and does not stop the blocks after it.
\<close>

theorem processResponseForFiles_partial_failure:
  "fst (processResponseForFiles f io response) =
     map (name_of io) (filter (\<lambda>(k, b). succeeds f (io k)) (enumerate 0 (extractCodeBlocks response))) \<and>
   length (shown_errors (snd (processResponseForFiles f io response))) =
     length (filter (\<lambda>(k, b). \<not> succeeds f (io k)) (enumerate 0 (extractCodeBlocks response))) \<and>
   attempted_writes (snd (processResponseForFiles (Some (dir # dirs)) io response)) =
     map (\<lambda>(k, b). (name_of io (k, b), code b)) (enumerate 0 (extractCodeBlocks response))"
  by (simp add: processResponseForFiles_def Let_def createAll_names createAll_errors
      createAll_attempts)

text \<open>
  The witness: three blocks, the write of the second one rejected. Two names come back in
  extraction order, one error is shown, and all three writes were attempted.
\<close>

lemma three_blocks:
  "extractCodeBlocks (fence @ line_feed # ''one'' @ closing @ fence @ line_feed # ''two''
      @ closing @ fence @ line_feed # ''three'' @ closing) =
    [\<lparr>language = [], code = ''one''\<rparr>, \<lparr>language = [], code = ''two''\<rparr>,
     \<lparr>language = [], code = ''three''\<rparr>]"
    by (simp add: extractCodeBlocks_def match_here_def fence_def closing_def line_feed_def
        starts_with_def is_word_def is_space_def trim_def)

lemma getFileExtension_no_tag: "getFileExtension [] = Str ''txt''"
    by (simp add: getFileExtension_def object_get_def extensionMap_def toLowerCase_def
        object_prototype_names_def)

lemma enumerate_three: "enumerate 0 [a, b, c] = [(0, a), (Suc 0, b), (Suc (Suc 0), c)]"
  by simp

lemma second_write_fails_name0: "name_of io_second_write_fails (0, \<lparr>language = [], code = c\<rparr>) = ''generated_1700000000000.txt''"
  by (simp add: name_of_def getFileExtension_no_tag io_second_write_fails_def fileNameFor_def default_name_def number_toString_def decimal.simps digit_char_def)
lemma second_write_fails_name1: "name_of io_second_write_fails (Suc 0, \<lparr>language = [], code = c\<rparr>) = ''generated_1700000000001.txt''"
  by (simp add: name_of_def getFileExtension_no_tag io_second_write_fails_def fileNameFor_def default_name_def number_toString_def decimal.simps digit_char_def)
lemma second_write_fails_name2: "name_of io_second_write_fails (Suc (Suc 0), \<lparr>language = [], code = c\<rparr>) = ''generated_1700000000002.txt''"
  by (simp add: name_of_def getFileExtension_no_tag io_second_write_fails_def fileNameFor_def default_name_def number_toString_def decimal.simps digit_char_def)


lemma second_write_fails_first: "succeeds (Some [''/w'']) (io_second_write_fails 0)"
  and second_write_fails_second: "\<not> succeeds (Some [''/w'']) (io_second_write_fails (Suc 0))"
  and second_write_fails_third: "succeeds (Some [''/w'']) (io_second_write_fails (Suc (Suc 0)))"
  by (simp_all add: succeeds_def io_second_write_fails_def)

theorem processResponseForFiles_partial_failure_witness:
  "fst (processResponseForFiles (Some [''/w'']) io_second_write_fails
          (fence @ line_feed # ''one'' @ closing @ fence @ line_feed # ''two'' @ closing @
           fence @ line_feed # ''three'' @ closing)) =
     [''generated_1700000000000.txt'', ''generated_1700000000002.txt''] \<and>
   length (shown_errors (snd (processResponseForFiles (Some [''/w'']) io_second_write_fails
          (fence @ line_feed # ''one'' @ closing @ fence @ line_feed # ''two'' @ closing @
           fence @ line_feed # ''three'' @ closing)))) = 1 \<and>
   attempted_writes (snd (processResponseForFiles (Some [''/w'']) io_second_write_fails
          (fence @ line_feed # ''one'' @ closing @ fence @ line_feed # ''two'' @ closing @
           fence @ line_feed # ''three'' @ closing))) =
     [(''generated_1700000000000.txt'', ''one''), (''generated_1700000000001.txt'', ''two''),
      (''generated_1700000000002.txt'', ''three'')]"
  using processResponseForFiles_partial_failure
      [of "Some [''/w'']" io_second_write_fails
          "fence @ line_feed # ''one'' @ closing @ fence @ line_feed # ''two'' @ closing @
           fence @ line_feed # ''three'' @ closing" "''/w''" "[]"]
  by (simp only: three_blocks enumerate_three second_write_fails_name0 second_write_fails_name1
      second_write_fails_name2 second_write_fails_first second_write_fails_second
      second_write_fails_third list.map filter.simps prod.case if_True if_False
      list.size One_nat_def not_False_eq_True not_True_eq_False code_block.simps) simp

text \<open>
  C7, the claim as worded fails: when \<^verbatim>\<open>openTextDocument\<close> is rejected after the file was
  written, the file is on disk and its name is not returned.
\<close>

theorem written_not_returned_counterexample:
  "fst (processResponseForFiles (Some [''/w'']) io_open_rejected (fence @ line_feed # ''one'' @ closing))
     \<noteq> written_names (snd (processResponseForFiles (Some [''/w'']) io_open_rejected
           (fence @ line_feed # ''one'' @ closing)))"
  by (simp add: processResponseForFiles_def extractCodeBlocks_def match_here_def fence_def
      closing_def line_feed_def starts_with_def is_word_def is_space_def trim_def createFile_def
      io_open_rejected_def Let_def)

subsection \<open>The completion call\<close>

lemma callDeepSeekAPI_one_request:
  "length (snd (callDeepSeekAPI eng url key model messages maxTokens outcome)) \<le> 1"
  by (simp add: callDeepSeekAPI_def Let_def split: option.splits prod.splits http_outcome.splits)

lemma on_ok_cases:
  "(\<exists>v. on_ok eng data = Inr v) \<or> on_ok eng data = Inl failed_to_parse \<or>
   on_ok eng data = Inl no_response"
  by (simp add: on_ok_def split: option.splits jsval.splits bool.splits)

lemma errors_differ: "failed_to_parse \<noteq> no_response"
  by (simp add: failed_to_parse_def no_response_def)

lemma on_ok_returns:
  "(on_ok eng data = Inr v) =
   (\<exists>response choices msg.
      JSON_parse eng data = Some response \<and>
      member ''choices'' (Val response) = Some (Val choices) \<and> truthy (Val choices) \<and>
      gt_zero eng (js_length choices) = Some True \<and>
      member ''message'' (first choices) = Some msg \<and> member ''content'' msg = Some v)"
  by (auto simp: on_ok_def split: option.splits jsval.splits bool.splits)

lemma on_ok_no_response:
  "(on_ok eng data = Inl no_response) =
   (\<exists>response c.
      JSON_parse eng data = Some response \<and> member ''choices'' (Val response) = Some c \<and>
      (\<not> truthy c \<or> (\<exists>choices. c = Val choices \<and> gt_zero eng (js_length choices) = Some False)))"
  using errors_differ
  by (auto simp: on_ok_def split: option.splits jsval.splits bool.splits)

lemma on_ok_failed:
  "(on_ok eng data = Inl failed_to_parse) =
   (\<not> (\<exists>v. on_ok eng data = Inr v) \<and> on_ok eng data \<noteq> Inl no_response)"
  using on_ok_cases[of eng data] errors_differ by auto

text \<open>
  C6, amended. For every response with status 200 to an endpoint that parses, exactly one
  of three things happens, and exactly one request was sent (nothing is retried):
  \<^item> the call returns \<^verbatim>\<open>choices[0].message.content\<close>, exactly when the body parses to a
    value other than \<^verbatim>\<open>null\<close> whose \<^verbatim>\<open>choices\<close> is truthy and has a length greater than zero (a
    non-empty list, in particular) and neither \<^verbatim>\<open>choices[0]\<close> nor its \<^verbatim>\<open>message\<close> is
    \<^verbatim>\<open>null\<close> or \<^verbatim>\<open>undefined\<close>;
  \<^item> it fails with \<open>no_response\<close>, exactly when the body parses to a value other than
    \<^verbatim>\<open>null\<close> whose \<^verbatim>\<open>choices\<close> is missing or falsy or has a length that is not greater than
    zero (an empty list, in particular; a body that is a number, a string or a list has no
    \<^verbatim>\<open>choices\<close>);
  \<^item> it fails with \<open>failed_to_parse\<close> in every other case: a body that is not JSON, the
    body \<^verbatim>\<open>null\<close>, a first choice without a \<^verbatim>\<open>message\<close>, a length whose comparison throws.
  For a body that is an object with a list of choices the last conjuncts spell this out.
\<close>

theorem callDeepSeekAPI_status_200:
  assumes "URL_parse eng url = Some (hostname, pathname)"
  shows
   "(\<forall>v. (fst (callDeepSeekAPI eng url key model messages maxTokens (Response 200 data)) = Inr v) =
        (\<exists>response choices msg.
           JSON_parse eng data = Some response \<and>
           member ''choices'' (Val response) = Some (Val choices) \<and> truthy (Val choices) \<and>
           gt_zero eng (js_length choices) = Some True \<and>
           member ''message'' (first choices) = Some msg \<and> member ''content'' msg = Some v)) \<and>
    ((fst (callDeepSeekAPI eng url key model messages maxTokens (Response 200 data)) = Inl no_response) =
        (\<exists>response c.
           JSON_parse eng data = Some response \<and> member ''choices'' (Val response) = Some c \<and>
           (\<not> truthy c \<or>
            (\<exists>choices. c = Val choices \<and> gt_zero eng (js_length choices) = Some False)))) \<and>
    ((fst (callDeepSeekAPI eng url key model messages maxTokens (Response 200 data)) = Inl failed_to_parse) =
        (\<not> (\<exists>v. fst (callDeepSeekAPI eng url key model messages maxTokens (Response 200 data)) = Inr v) \<and>
         fst (callDeepSeekAPI eng url key model messages maxTokens (Response 200 data)) \<noteq> Inl no_response)) \<and>
    (JSON_parse eng data = None \<or> JSON_parse eng data = Some JNull \<longrightarrow>
       fst (callDeepSeekAPI eng url key model messages maxTokens (Response 200 data)) = Inl failed_to_parse) \<and>
    (\<forall>response. JSON_parse eng data = Some response \<and> response \<noteq> JNull \<and>
         (\<forall>kv. response \<noteq> JObj kv) \<longrightarrow>
       fst (callDeepSeekAPI eng url key model messages maxTokens (Response 200 data)) = Inl no_response) \<and>
    (\<forall>kv. JSON_parse eng data = Some (JObj kv) \<and>
         (map_of kv ''choices'' = None \<or> map_of kv ''choices'' = Some JNull \<or>
          map_of kv ''choices'' = Some (JArr [])) \<longrightarrow>
       fst (callDeepSeekAPI eng url key model messages maxTokens (Response 200 data)) = Inl no_response) \<and>
    (\<forall>kv x xs. JSON_parse eng data = Some (JObj kv) \<and> map_of kv ''choices'' = Some (JArr (x # xs)) \<longrightarrow>
       fst (callDeepSeekAPI eng url key model messages maxTokens (Response 200 data)) =
         (case member ''message'' (Val x) of
            None \<Rightarrow> Inl failed_to_parse
          | Some msg \<Rightarrow>
             (case member ''content'' msg of
                None \<Rightarrow> Inl failed_to_parse
              | Some v \<Rightarrow> Inr v))) \<and>
    snd (callDeepSeekAPI eng url key model messages maxTokens (Response 200 data)) =
      [\<lparr>req_hostname = hostname, req_path = pathname,
        req_authorization = ''Bearer '' @ key, req_model = model,
        req_messages = messages, req_max_tokens = maxTokens\<rparr>]"
proof -
  let ?R = "fst (callDeepSeekAPI eng url key model messages maxTokens (Response 200 data))"
  have r: "?R = on_ok eng data"
    using assms by (simp add: callDeepSeekAPI_def)
  have c1: "\<forall>v. (?R = Inr v) =
        (\<exists>response choices msg.
           JSON_parse eng data = Some response \<and>
           member ''choices'' (Val response) = Some (Val choices) \<and> truthy (Val choices) \<and>
           gt_zero eng (js_length choices) = Some True \<and>
           member ''message'' (first choices) = Some msg \<and> member ''content'' msg = Some v)"
    unfolding r by (intro allI) (rule on_ok_returns)
  have c2: "(?R = Inl no_response) =
        (\<exists>response c.
           JSON_parse eng data = Some response \<and> member ''choices'' (Val response) = Some c \<and>
           (\<not> truthy c \<or>
            (\<exists>choices. c = Val choices \<and> gt_zero eng (js_length choices) = Some False)))"
    unfolding r by (rule on_ok_no_response)
  have c3: "(?R = Inl failed_to_parse) = (\<not> (\<exists>v. ?R = Inr v) \<and> ?R \<noteq> Inl no_response)"
    unfolding r by (rule on_ok_failed)
  have c4: "JSON_parse eng data = None \<or> JSON_parse eng data = Some JNull \<longrightarrow>
       ?R = Inl failed_to_parse"
    unfolding r by (auto simp: on_ok_def)
  have c5: "\<forall>response. JSON_parse eng data = Some response \<and> response \<noteq> JNull \<and>
         (\<forall>kv. response \<noteq> JObj kv) \<longrightarrow> ?R = Inl no_response"
  proof (intro allI impI)
    fix response
    assume "JSON_parse eng data = Some response \<and> response \<noteq> JNull \<and> (\<forall>kv. response \<noteq> JObj kv)"
    then show "?R = Inl no_response"
      unfolding r by (cases response) (auto simp: on_ok_def)
  qed
  have c6: "\<forall>kv. JSON_parse eng data = Some (JObj kv) \<and>
         (map_of kv ''choices'' = None \<or> map_of kv ''choices'' = Some JNull \<or>
          map_of kv ''choices'' = Some (JArr [])) \<longrightarrow> ?R = Inl no_response"
    unfolding r by (auto simp: on_ok_def)
  have c7: "\<forall>kv x xs. JSON_parse eng data = Some (JObj kv) \<and>
         map_of kv ''choices'' = Some (JArr (x # xs)) \<longrightarrow>
       ?R = (case member ''message'' (Val x) of
            None \<Rightarrow> Inl failed_to_parse
          | Some msg \<Rightarrow>
             (case member ''content'' msg of
                None \<Rightarrow> Inl failed_to_parse
              | Some v \<Rightarrow> Inr v))"
    unfolding r by (simp add: on_ok_def)
  have c8: "snd (callDeepSeekAPI eng url key model messages maxTokens (Response 200 data)) =
      [\<lparr>req_hostname = hostname, req_path = pathname,
        req_authorization = ''Bearer '' @ key, req_model = model,
        req_messages = messages, req_max_tokens = maxTokens\<rparr>]"
    using assms by (simp add: callDeepSeekAPI_def)
  from c1 c2 c3 c4 c5 c6 c7 c8 show ?thesis by (intro conjI)
qed

lemma sample_bodies_differ:
  "body_hello \<noteq> body_empty_choice" "body_no_choices \<noteq> body_empty_choice"
  "body_no_choices \<noteq> body_hello" "''<html>'' \<noteq> body_empty_choice"
  "''<html>'' \<noteq> body_hello" "''<html>'' \<noteq> body_no_choices"
  by (simp_all add: body_hello_def body_empty_choice_def body_no_choices_def)

lemma sample_parse:
  "JSON_parse sample_engine body_empty_choice = Some (JObj [(''choices'', JArr [JObj []])])"
  "JSON_parse sample_engine body_hello =
     Some (JObj [(''choices'', JArr [JObj [(''message'', JObj [(''content'', JStr ''hello'')])]])])"
  "JSON_parse sample_engine body_no_choices = Some (JObj [(''choices'', JArr [])])"
  "JSON_parse sample_engine ''<html>'' = None"
  by (simp_all add: sample_engine_def sample_bodies_differ)

lemma sample_url:
  "URL_parse sample_engine sample_endpoint = Some (''api.deepseek.com'', ''/v1/chat/completions'')"
  by (simp add: sample_engine_def)

lemma sample_bodies_differ_null:
  "''null'' \<noteq> body_empty_choice" "''null'' \<noteq> body_hello" "''null'' \<noteq> body_no_choices"
  by (simp_all add: body_hello_def body_empty_choice_def body_no_choices_def)

lemma sample_parse_null: "JSON_parse sample_engine ''null'' = Some JNull"
  by (simp add: sample_engine_def sample_bodies_differ_null)

theorem callDeepSeekAPI_status_200_witness:
  "URL_parse sample_engine sample_endpoint = Some (''api.deepseek.com'', ''/v1/chat/completions'') \<and>
   fst (callDeepSeekAPI sample_engine sample_endpoint ''sk-test'' ''deepseek-chat'' [] 1024
          (Response 200 body_hello)) = Inr (Val (JStr ''hello'')) \<and>
   fst (callDeepSeekAPI sample_engine sample_endpoint ''sk-test'' ''deepseek-chat'' [] 1024
          (Response 200 body_no_choices)) = Inl no_response \<and>
   fst (callDeepSeekAPI sample_engine sample_endpoint ''sk-test'' ''deepseek-chat'' [] 1024
          (Response 200 ''<html>'')) = Inl failed_to_parse \<and>
   fst (callDeepSeekAPI sample_engine sample_endpoint ''sk-test'' ''deepseek-chat'' [] 1024
          (Response 200 ''null'')) = Inl failed_to_parse \<and>
   fst (callDeepSeekAPI sample_engine sample_endpoint ''sk-test'' ''deepseek-chat'' [] 1024
          (Response 200 body_empty_choice)) = Inl failed_to_parse \<and>
   length (snd (callDeepSeekAPI sample_engine sample_endpoint ''sk-test'' ''deepseek-chat'' [] 1024
          (Response 200 body_hello))) = 1"
  using callDeepSeekAPI_status_200 [OF sample_url, where data = body_hello and key = "''sk-test''"
      and model = "''deepseek-chat''" and messages = "[]" and maxTokens = 1024]
    callDeepSeekAPI_status_200 [OF sample_url, where data = body_no_choices and key = "''sk-test''"
      and model = "''deepseek-chat''" and messages = "[]" and maxTokens = 1024]
    callDeepSeekAPI_status_200 [OF sample_url, where data = "''<html>''" and key = "''sk-test''"
      and model = "''deepseek-chat''" and messages = "[]" and maxTokens = 1024]
    callDeepSeekAPI_status_200 [OF sample_url, where data = "''null''" and key = "''sk-test''"
      and model = "''deepseek-chat''" and messages = "[]" and maxTokens = 1024]
    callDeepSeekAPI_status_200 [OF sample_url, where data = body_empty_choice and key = "''sk-test''"
      and model = "''deepseek-chat''" and messages = "[]" and maxTokens = 1024]
  by (simp add: sample_parse sample_parse_null sample_url)

text \<open>
  C6, the claim as worded fails: the body \<^verbatim>\<open>{"choices":[{}]}\<close> parses and holds a non-empty
  list of choices, and the call does not return: reading \<^verbatim>\<open>content\<close> of the missing
  \<^verbatim>\<open>message\<close> throws, and the \<^verbatim>\<open>catch\<close> rejects.
\<close>

theorem choices_without_message_counterexample:
  "has_choices sample_engine body_empty_choice \<and>
   fst (callDeepSeekAPI sample_engine sample_endpoint ''sk-test'' ''deepseek-chat'' [] 1024
          (Response 200 body_empty_choice)) = Inl failed_to_parse"
  by (simp add: has_choices_def sample_parse sample_url callDeepSeekAPI_def on_ok_def)

subsection \<open>The chat turn\<close>

lemma or_bool_True: "or_bool x True"
  by (simp add: or_bool_def split: option.splits)

lemma handleMessage_begin_Awaiting:
  assumes "handleMessage_begin config p message model = Awaiting p1 effects call editing"
  shows "view p" and "\<not> isProcessing p"
    and "p1 = p\<lparr>isProcessing := True, selectedModel := model,
                 conversationHistory :=
                   conversationHistory p @ [\<lparr>msg_role = User, msg_content = message\<rparr>]\<rparr>"
    and "effects = [PostMessage (SetTypingIndicator True)]"
    and "editing"
    and "call_messages call = conversationHistory p1"
  using assms
  by (auto simp: handleMessage_begin_def Let_def safePostMessage_def or_bool_True
      split: if_splits option.splits)

text \<open>
  The handler of the variant up to its first \<^verbatim>\<open>await\<close> is the start of its whole turn.
\<close>

lemma handleMessage_probing_from_begin:
  "handleMessage_probing config isValidKey settled p message =
     (case handleMessage_probing_begin config p message of
        Returned p' effects \<Rightarrow> (p', effects)
      | AwaitingProbe p1 key url \<Rightarrow>
          if \<not> isValidKey then (p1, safePostMessage p1 (AddMessage (Text invalid_key) False))
          else
           (case settled of
              Inr response \<Rightarrow>
                (p1\<lparr>conversationHistory :=
                      conversationHistory p1 @ [\<lparr>msg_role = Assistant, msg_content = response\<rparr>]\<rparr>,
                 safePostMessage p1 AddTypingIndicator @ safePostMessage p1 RemoveTypingIndicator @
                 safePostMessage p1 (AddMessage (Text response) False))
            | Inl errorMessage \<Rightarrow>
                (p1, safePostMessage p1 AddTypingIndicator @ safePostMessage p1 RemoveTypingIndicator @
                     safePostMessage p1 (AddMessage (Text (''Error: '' @ errorMessage)) False))))"
  by (auto simp: handleMessage_probing_def handleMessage_probing_begin_def Let_def
      safePostMessage_def split: option.splits sum.splits)

lemma handleMessage_probing_begin_view:
  assumes "view p"
  shows "handleMessage_probing_begin config p message =
           (if apiKey config = None \<or> apiKey config = Some [] then
              Returned
                (p\<lparr>conversationHistory :=
                     conversationHistory p @ [\<lparr>msg_role = User, msg_content = message\<rparr>]\<rparr>)
                [PostMessage (AddMessage (Text please_set_key) False)]
            else
              AwaitingProbe
                (p\<lparr>conversationHistory :=
                     conversationHistory p @ [\<lparr>msg_role = User, msg_content = message\<rparr>]\<rparr>)
                (the (apiKey config))
                (or_string (endpoint config) ''https://api.deepseek.com/v1/chat/completions''))"
  using assms
  by (auto simp: handleMessage_probing_begin_def Let_def safePostMessage_def split: option.splits)


text \<open>
  C2, amended. In the provider of \<^verbatim>\<open>src/extension.ts\<close>, a message that arrives while
  \<^verbatim>\<open>_isProcessing\<close> is set is dropped: the handler returns before its first \<^verbatim>\<open>await\<close> with
  the provider as it was (the history too), no effect (no message to the webview, no error
  shown) and no call of \<^verbatim>\<open>_callDeepSeekAPI\<close>, so no request; and the provider of a turn
  that waits for its response has \<^verbatim>\<open>_isProcessing\<close> set, so this is what happens to every
  message that arrives during that wait. The variant of the provider with the key probe
  keeps no such flag: with the view attached it appends every incoming message to the
  history, whatever is in flight, and with a key set goes on to the probe request.
\<close>

theorem single_flight:
  "(isProcessing p \<longrightarrow> handleMessage_begin config p message model = Finished p []) \<and>
   (handleMessage_begin config0 p0 message0 model0 = Awaiting p effects call editing \<longrightarrow>
      isProcessing p \<and> handleMessage_begin config p message model = Finished p []) \<and>
   (view p \<longrightarrow>
      handleMessage_probing_begin config p message =
        (if apiKey config = None \<or> apiKey config = Some [] then
           Returned
             (p\<lparr>conversationHistory :=
                  conversationHistory p @ [\<lparr>msg_role = User, msg_content = message\<rparr>]\<rparr>)
             [PostMessage (AddMessage (Text please_set_key) False)]
         else
           AwaitingProbe
             (p\<lparr>conversationHistory :=
                  conversationHistory p @ [\<lparr>msg_role = User, msg_content = message\<rparr>]\<rparr>)
             (the (apiKey config))
             (or_string (endpoint config) ''https://api.deepseek.com/v1/chat/completions'')))"
proof (intro conjI impI)
  show "handleMessage_begin config p message model = Finished p []" if "isProcessing p"
    using that by (simp add: handleMessage_begin_def)
  show "isProcessing p"
    if a: "handleMessage_begin config0 p0 message0 model0 = Awaiting p effects call editing"
    using handleMessage_begin_Awaiting(3)[OF a] by simp
  then show "handleMessage_begin config p message model = Finished p []"
    if a: "handleMessage_begin config0 p0 message0 model0 = Awaiting p effects call editing"
    using that by (simp add: handleMessage_begin_def)
  show "handleMessage_probing_begin config p message =
        (if apiKey config = None \<or> apiKey config = Some [] then
           Returned
             (p\<lparr>conversationHistory :=
                  conversationHistory p @ [\<lparr>msg_role = User, msg_content = message\<rparr>]\<rparr>)
             [PostMessage (AddMessage (Text please_set_key) False)]
         else
           AwaitingProbe
             (p\<lparr>conversationHistory :=
                  conversationHistory p @ [\<lparr>msg_role = User, msg_content = message\<rparr>]\<rparr>)
             (the (apiKey config))
             (or_string (endpoint config) ''https://api.deepseek.com/v1/chat/completions''))"
    if "view p" using that by (rule handleMessage_probing_begin_view)
qed


theorem single_flight_witness:
  "handleMessage_begin config_editing_off idle_provider ''first'' ''deepseek-chat'' =
     Awaiting
       \<lparr>view = True, conversationHistory = [\<lparr>msg_role = User, msg_content = ''first''\<rparr>],
        isProcessing = True, selectedModel = ''deepseek-chat''\<rparr>
       [PostMessage (SetTypingIndicator True)]
       \<lparr>call_endpoint = ''https://api.deepseek.com/v1/chat/completions'', call_apiKey = ''sk-test'',
        call_model = ''deepseek-chat'',
        call_messages = [\<lparr>msg_role = User, msg_content = ''first''\<rparr>], call_maxTokens = 1024\<rparr>
       True \<and>
   handleMessage_begin config_editing_off
       \<lparr>view = True, conversationHistory = [\<lparr>msg_role = User, msg_content = ''first''\<rparr>],
        isProcessing = True, selectedModel = ''deepseek-chat''\<rparr> ''second'' ''deepseek-coder'' =
     Finished
       \<lparr>view = True, conversationHistory = [\<lparr>msg_role = User, msg_content = ''first''\<rparr>],
        isProcessing = True, selectedModel = ''deepseek-chat''\<rparr> [] \<and>
   handleMessage_probing_begin config_editing_off
       \<lparr>view = True, conversationHistory = [\<lparr>msg_role = User, msg_content = ''first''\<rparr>],
        isProcessing = True, selectedModel = ''deepseek-chat''\<rparr> ''second'' =
     AwaitingProbe
       \<lparr>view = True,
        conversationHistory = [\<lparr>msg_role = User, msg_content = ''first''\<rparr>,
                               \<lparr>msg_role = User, msg_content = ''second''\<rparr>],
        isProcessing = True, selectedModel = ''deepseek-chat''\<rparr>
       ''sk-test'' ''https://api.deepseek.com/v1/chat/completions''"
proof -
  have b: "handleMessage_begin config_editing_off idle_provider ''first'' ''deepseek-chat'' =
     Awaiting
       \<lparr>view = True, conversationHistory = [\<lparr>msg_role = User, msg_content = ''first''\<rparr>],
        isProcessing = True, selectedModel = ''deepseek-chat''\<rparr>
       [PostMessage (SetTypingIndicator True)]
       \<lparr>call_endpoint = ''https://api.deepseek.com/v1/chat/completions'', call_apiKey = ''sk-test'',
        call_model = ''deepseek-chat'',
        call_messages = [\<lparr>msg_role = User, msg_content = ''first''\<rparr>], call_maxTokens = 1024\<rparr>
       True"
    by (simp add: handleMessage_begin_def idle_provider_def config_editing_off_def Let_def
        or_string_def or_number_def or_bool_def safePostMessage_def)
  with single_flight [of
      "\<lparr>view = True, conversationHistory = [\<lparr>msg_role = User, msg_content = ''first''\<rparr>],
        isProcessing = True, selectedModel = ''deepseek-chat''\<rparr>"
      config_editing_off "''second''" "''deepseek-coder''"
      config_editing_off idle_provider "''first''" "''deepseek-chat''"]
  show ?thesis by (simp add: config_editing_off_def or_string_def)
qed

text \<open>
  C2, the claim as worded fails in the variant with the key probe: a second message that
  arrives while the first turn waits for its probe is appended to the history and waits
  for a probe of its own.
\<close>

theorem probing_variant_not_dropped_counterexample:
  "handleMessage_probing_begin config_editing_off idle_provider ''first'' =
     AwaitingProbe
       \<lparr>view = True, conversationHistory = [\<lparr>msg_role = User, msg_content = ''first''\<rparr>],
        isProcessing = False, selectedModel = ''deepseek-chat''\<rparr>
       ''sk-test'' sample_endpoint \<and>
   handleMessage_probing_begin config_editing_off
       \<lparr>view = True, conversationHistory = [\<lparr>msg_role = User, msg_content = ''first''\<rparr>],
        isProcessing = False, selectedModel = ''deepseek-chat''\<rparr> ''second'' =
     AwaitingProbe
       \<lparr>view = True,
        conversationHistory = [\<lparr>msg_role = User, msg_content = ''first''\<rparr>,
                               \<lparr>msg_role = User, msg_content = ''second''\<rparr>],
        isProcessing = False, selectedModel = ''deepseek-chat''\<rparr>
       ''sk-test'' sample_endpoint"
  by (simp add: handleMessage_probing_begin_def idle_provider_def config_editing_off_def Let_def
      or_string_def sample_endpoint_def)

text \<open>
  The variant with the key probe keeps no flag: with the view attached it appends the
  message of the user whatever else is going on, so it has no state in which a message is
  dropped.
\<close>

lemma handleMessage_probing_appends:
  "view p \<Longrightarrow>
   \<exists>rest. conversationHistory (fst (handleMessage_probing config isValidKey settled p message)) =
     conversationHistory p @ \<lparr>msg_role = User, msg_content = message\<rparr> # rest"
  by (auto simp: handleMessage_probing_def Let_def split: sum.splits)

lemma callDeepSeekAPI_401:
  "URL_parse eng url = Some hp \<Longrightarrow>
   fst (callDeepSeekAPI eng url key model messages maxTokens (Response 401 data))
     = Inl authentication_failed"
  by (cases hp) (simp add: callDeepSeekAPI_def)

text \<open>
  C5. When the completion call of a turn is rejected with an error of message \<open>e\<close>, the
  rest of the turn switches the typing indicator off, posts the assistant-role message
  \<^verbatim>\<open>Error: \<close>\<open>e\<close>, and leaves the history as it was when the call started: the history
  before the turn and the message of the user. A response with status 401 is such an
  error, with the message \<open>authentication_failed\<close>. The same holds in the variant with the
  key probe, for a turn that got as far as the completion call.
\<close>

theorem failed_turn_keeps_history:
  assumes "handleMessage_begin config p message model = Awaiting p1 effects call editing"
      and "settled_with eng call outcome = Some (Inl e)"
  shows "handleMessage config folders io (Inl e) p message model =
           (p\<lparr>isProcessing := False, selectedModel := model,
              conversationHistory :=
                conversationHistory p @ [\<lparr>msg_role = User, msg_content = message\<rparr>]\<rparr>,
            [PostMessage (SetTypingIndicator True), PostMessage (SetTypingIndicator False),
             PostMessage (AddMessage (Text (''Error: '' @ e)) False)]) \<and>
         handleMessage_settle folders io editing p1 (Inl e) =
           (p1\<lparr>isProcessing := False\<rparr>,
            [PostMessage (SetTypingIndicator False),
             PostMessage (AddMessage (Text (''Error: '' @ e)) False)]) \<and>
         conversationHistory p1 =
           conversationHistory p @ [\<lparr>msg_role = User, msg_content = message\<rparr>] \<and>
         (URL_parse eng (call_endpoint call) \<noteq> None \<longrightarrow>
            settled_with eng call (Response 401 data) = Some (Inl authentication_failed)) \<and>
         (apiKey config \<noteq> None \<and> apiKey config \<noteq> Some [] \<longrightarrow>
            handleMessage_probing config True (Inl e) p message =
              (p\<lparr>conversationHistory :=
                   conversationHistory p @ [\<lparr>msg_role = User, msg_content = message\<rparr>]\<rparr>,
               [PostMessage AddTypingIndicator, PostMessage RemoveTypingIndicator,
                PostMessage (AddMessage (Text (''Error: '' @ e)) False)]))"
proof -
  note b = handleMessage_begin_Awaiting[OF assms(1)]
  have s: "handleMessage_settle folders io editing p1 (Inl e) =
           (p1\<lparr>isProcessing := False\<rparr>,
            [PostMessage (SetTypingIndicator False),
             PostMessage (AddMessage (Text (''Error: '' @ e)) False)])"
    using b(1,3) by (simp add: handleMessage_settle_def safePostMessage_def)
  have w: "handleMessage config folders io (Inl e) p message model =
           (p\<lparr>isProcessing := False, selectedModel := model,
              conversationHistory :=
                conversationHistory p @ [\<lparr>msg_role = User, msg_content = message\<rparr>]\<rparr>,
            [PostMessage (SetTypingIndicator True), PostMessage (SetTypingIndicator False),
             PostMessage (AddMessage (Text (''Error: '' @ e)) False)])"
    using assms(1) s b(3,4) by (simp add: handleMessage_def)
  have h: "conversationHistory p1 =
           conversationHistory p @ [\<lparr>msg_role = User, msg_content = message\<rparr>]"
    using b(3) by simp
  have u: "settled_with eng call (Response 401 data) = Some (Inl authentication_failed)"
    if "URL_parse eng (call_endpoint call) \<noteq> None"
    using that callDeepSeekAPI_401 by (auto simp: settled_with_def)
  have v: "handleMessage_probing config True (Inl e) p message =
              (p\<lparr>conversationHistory :=
                   conversationHistory p @ [\<lparr>msg_role = User, msg_content = message\<rparr>]\<rparr>,
               [PostMessage AddTypingIndicator, PostMessage RemoveTypingIndicator,
                PostMessage (AddMessage (Text (''Error: '' @ e)) False)])"
    if "apiKey config \<noteq> None \<and> apiKey config \<noteq> Some []"
    using that b(1)
    by (auto simp: handleMessage_probing_def Let_def safePostMessage_def split: option.splits)
  from s w h u v show ?thesis by blast
qed

lemma begin_hi:
  "handleMessage_begin config_editing_off idle_provider ''hi'' ''deepseek-chat'' =
     Awaiting
       \<lparr>view = True, conversationHistory = [\<lparr>msg_role = User, msg_content = ''hi''\<rparr>],
        isProcessing = True, selectedModel = ''deepseek-chat''\<rparr>
       [PostMessage (SetTypingIndicator True)]
       \<lparr>call_endpoint = sample_endpoint, call_apiKey = ''sk-test'',
        call_model = ''deepseek-chat'',
        call_messages = [\<lparr>msg_role = User, msg_content = ''hi''\<rparr>], call_maxTokens = 1024\<rparr>
       True"
  by (simp add: handleMessage_begin_def idle_provider_def config_editing_off_def Let_def
      or_string_def or_number_def or_bool_def safePostMessage_def sample_endpoint_def)

lemma settled_401:
  "settled_with sample_engine
     \<lparr>call_endpoint = sample_endpoint, call_apiKey = ''sk-test'', call_model = ''deepseek-chat'',
      call_messages = [\<lparr>msg_role = User, msg_content = ''hi''\<rparr>], call_maxTokens = 1024\<rparr>
     (Response 401 ''Unauthorized'') = Some (Inl authentication_failed)"
  by (simp add: settled_with_def callDeepSeekAPI_def sample_url)

theorem failed_turn_keeps_history_witness:
  "handleMessage_begin config_editing_off idle_provider ''hi'' ''deepseek-chat'' =
     Awaiting
       \<lparr>view = True, conversationHistory = [\<lparr>msg_role = User, msg_content = ''hi''\<rparr>],
        isProcessing = True, selectedModel = ''deepseek-chat''\<rparr>
       [PostMessage (SetTypingIndicator True)]
       \<lparr>call_endpoint = sample_endpoint, call_apiKey = ''sk-test'',
        call_model = ''deepseek-chat'',
        call_messages = [\<lparr>msg_role = User, msg_content = ''hi''\<rparr>], call_maxTokens = 1024\<rparr>
       True \<and>
   settled_with sample_engine
     \<lparr>call_endpoint = sample_endpoint, call_apiKey = ''sk-test'', call_model = ''deepseek-chat'',
      call_messages = [\<lparr>msg_role = User, msg_content = ''hi''\<rparr>], call_maxTokens = 1024\<rparr>
     (Response 401 ''Unauthorized'') = Some (Inl authentication_failed) \<and>
   handleMessage config_editing_off (Some [''/w'']) io_fine (Inl authentication_failed)
       idle_provider ''hi'' ''deepseek-chat'' =
     (\<lparr>view = True, conversationHistory = [\<lparr>msg_role = User, msg_content = ''hi''\<rparr>],
       isProcessing = False, selectedModel = ''deepseek-chat''\<rparr>,
      [PostMessage (SetTypingIndicator True), PostMessage (SetTypingIndicator False),
       PostMessage (AddMessage
         (Text ''Error: Authentication failed. Please check your API key in settings.'') False)]) \<and>
   handleMessage_probing config_editing_off True (Inl authentication_failed) idle_provider ''hi'' =
     (\<lparr>view = True, conversationHistory = [\<lparr>msg_role = User, msg_content = ''hi''\<rparr>],
       isProcessing = False, selectedModel = ''deepseek-chat''\<rparr>,
      [PostMessage AddTypingIndicator, PostMessage RemoveTypingIndicator,
       PostMessage (AddMessage
         (Text ''Error: Authentication failed. Please check your API key in settings.'') False)])"
  using failed_turn_keeps_history [OF begin_hi settled_401, of "Some [''/w'']" io_fine "''Unauthorized''"]
    begin_hi settled_401
  by (simp add: idle_provider_def config_editing_off_def authentication_failed_def)

text \<open>
  C10. With the view attached and nothing in flight, a turn whose settings hold the empty
  string as key does exactly what a turn without a key does: it appends the message of the
  user, posts the assistant-role message \<open>please_set_key\<close>, resets \<^verbatim>\<open>_isProcessing\<close> and
  returns before the call of \<^verbatim>\<open>_callDeepSeekAPI\<close>, so nothing is sent. The variant with the
  key probe does the same whatever the probe and the call would have given: it reaches
  neither.
\<close>

theorem empty_key_like_absent:
  assumes "view p" and "\<not> isProcessing p"
  shows "handleMessage_begin (config\<lparr>apiKey := Some []\<rparr>) p message model =
           handleMessage_begin (config\<lparr>apiKey := None\<rparr>) p message model \<and>
         handleMessage_begin (config\<lparr>apiKey := Some []\<rparr>) p message model =
           Finished
             (p\<lparr>isProcessing := False, selectedModel := model,
                conversationHistory :=
                  conversationHistory p @ [\<lparr>msg_role = User, msg_content = message\<rparr>]\<rparr>)
             [PostMessage (AddMessage (Text please_set_key) False)] \<and>
         handleMessage_probing (config\<lparr>apiKey := Some []\<rparr>) isValidKey settled p message =
           handleMessage_probing (config\<lparr>apiKey := None\<rparr>) isValidKey' settled' p message \<and>
         handleMessage_probing (config\<lparr>apiKey := Some []\<rparr>) isValidKey settled p message =
           (p\<lparr>conversationHistory :=
                conversationHistory p @ [\<lparr>msg_role = User, msg_content = message\<rparr>]\<rparr>,
            [PostMessage (AddMessage (Text please_set_key) False)])"
  using assms
  by (simp add: handleMessage_begin_def handleMessage_probing_def Let_def safePostMessage_def)

theorem empty_key_like_absent_witness:
  "view idle_provider \<and> \<not> isProcessing idle_provider \<and>
   handleMessage_begin (config_editing_off\<lparr>apiKey := Some []\<rparr>) idle_provider ''hi'' ''deepseek-chat'' =
     Finished
       \<lparr>view = True, conversationHistory = [\<lparr>msg_role = User, msg_content = ''hi''\<rparr>],
        isProcessing = False, selectedModel = ''deepseek-chat''\<rparr>
       [PostMessage (AddMessage
          (Text ''Error: Please set your DeepSeek API key in settings.'') False)] \<and>
   handleMessage_begin (config_editing_off\<lparr>apiKey := None\<rparr>) idle_provider ''hi'' ''deepseek-chat'' =
     Finished
       \<lparr>view = True, conversationHistory = [\<lparr>msg_role = User, msg_content = ''hi''\<rparr>],
        isProcessing = False, selectedModel = ''deepseek-chat''\<rparr>
       [PostMessage (AddMessage
          (Text ''Error: Please set your DeepSeek API key in settings.'') False)]"
proof -
  have v: "view idle_provider" and n: "\<not> isProcessing idle_provider"
    by (simp_all add: idle_provider_def)
  have r: "idle_provider\<lparr>isProcessing := False, selectedModel := ''deepseek-chat'',
             conversationHistory :=
               conversationHistory idle_provider @ [\<lparr>msg_role = User, msg_content = ''hi''\<rparr>]\<rparr> =
           \<lparr>view = True, conversationHistory = [\<lparr>msg_role = User, msg_content = ''hi''\<rparr>],
            isProcessing = False, selectedModel = ''deepseek-chat''\<rparr>"
    by (simp add: idle_provider_def)
  note t = empty_key_like_absent [OF v n, where config = config_editing_off and message = "''hi''"
      and model = "''deepseek-chat''" and isValidKey = True and settled = "Inl []"
      and isValidKey' = True and settled' = "Inl []", unfolded r please_set_key_def]
  from t have a: "handleMessage_begin (config_editing_off\<lparr>apiKey := Some []\<rparr>) idle_provider
      ''hi'' ''deepseek-chat'' =
     Finished
       \<lparr>view = True, conversationHistory = [\<lparr>msg_role = User, msg_content = ''hi''\<rparr>],
        isProcessing = False, selectedModel = ''deepseek-chat''\<rparr>
       [PostMessage (AddMessage
          (Text ''Error: Please set your DeepSeek API key in settings.'') False)]"
    by (rule conjunct1[OF conjunct2])
  from t have e: "handleMessage_begin (config_editing_off\<lparr>apiKey := Some []\<rparr>) idle_provider
      ''hi'' ''deepseek-chat'' =
      handleMessage_begin (config_editing_off\<lparr>apiKey := None\<rparr>) idle_provider
      ''hi'' ''deepseek-chat''"
    by (rule conjunct1)
  note b = trans [OF e [symmetric] a]
  from a b v n show ?thesis by (intro conjI)
qed

text \<open>
  A turn with a response that holds one block tagged \<^verbatim>\<open>javascript\<close>: what the extractor and
  the writer make of it.
\<close>

lemma script_block:
  "extractCodeBlocks response_with_script = [\<lparr>language = ''javascript'', code = ''let x = 1;''\<rparr>]"
  by (simp add: response_with_script_def extractCodeBlocks_def match_here_def fence_def
      closing_def line_feed_def starts_with_def is_word_def is_space_def trim_def)

lemma script_extension: "getFileExtension ''javascript'' = Str ''js''"
  by code_simp

lemma script_files:
  "processResponseForFiles (Some [''/w'']) io_fine response_with_script =
     ([''generated_1700000000000.js''],
      [WriteFile ''/w'' ''generated_1700000000000.js'' ''let x = 1;'' True,
       OpenTextDocument ''/w'' ''generated_1700000000000.js'',
       ShowTextDocument ''/w'' ''generated_1700000000000.js''])"
  by (simp add: processResponseForFiles_def script_block script_extension createFile_def
      io_fine_def fileNameFor_def default_name_def number_toString_def decimal.simps
      digit_char_def Let_def)

text \<open>
  C1. The claim: the files of a response are written exactly when the setting
  \<^verbatim>\<open>allowEditing\<close> read at the start of the turn is true. \<^verbatim>\<open>_handleMessage\<close> reads
  \<^verbatim>\<open>config.get('allowEditing') || true\<close>, which is true for every setting
  (\<open>or_bool_True\<close>). The turn below runs with \<^verbatim>\<open>allowEditing\<close> set to false and a response
  that holds one block: the file is written and announced.
\<close>

theorem editing_setting_ignored:
  "allowEditing config_editing_off = Some False \<and>
   handleMessage config_editing_off (Some [''/w'']) io_fine (Inr response_with_script)
       idle_provider ''write a script'' ''deepseek-chat'' =
     (\<lparr>view = True,
       conversationHistory =
         [\<lparr>msg_role = User, msg_content = ''write a script''\<rparr>,
          \<lparr>msg_role = Assistant, msg_content = response_with_script\<rparr>],
       isProcessing = False, selectedModel = ''deepseek-chat''\<rparr>,
      [PostMessage (SetTypingIndicator True), PostMessage (SetTypingIndicator False),
       WriteFile ''/w'' ''generated_1700000000000.js'' ''let x = 1;'' True,
       OpenTextDocument ''/w'' ''generated_1700000000000.js'',
       ShowTextDocument ''/w'' ''generated_1700000000000.js'',
       PostMessage (AddMessage
         (CreatedFiles [''generated_1700000000000.js''] response_with_script) False)])"
  by (simp add: handleMessage_def handleMessage_begin_def handleMessage_settle_def
      config_editing_off_def idle_provider_def Let_def or_string_def or_number_def or_bool_def
      safePostMessage_def script_files)

end
